theory Spec2Isabelle
  imports Complex_Main
begin

section \<open>Text\<close>

text \<open>
  The program's strings are modelled as \<open>string\<close>, holding the UTF-8 bytes of the text.
  Every search the code performs (\<open>includes\<close>, the literal-pattern regular expressions)
  looks for a fixed needle; on well-formed text a needle occurs among the UTF-16 code units
  exactly when its encoding occurs among the UTF-8 bytes.  Korean literals of the source are
  therefore written as byte lists.
\<close>

fun startsWith :: "string \<Rightarrow> string \<Rightarrow> bool" where
  "startsWith s [] = True"
| "startsWith [] (p # ps) = False"
| "startsWith (c # cs) (p # ps) = (c = p \<and> startsWith cs ps)"

text \<open>\<open>str_includes s sub\<close> is JavaScript's \<open>s.includes(sub)\<close>.\<close>

fun str_includes :: "string \<Rightarrow> string \<Rightarrow> bool" where
  "str_includes [] sub = (sub = [])"
| "str_includes (c # cs) sub = (startsWith (c # cs) sub \<or> str_includes cs sub)"

text \<open>
  JavaScript truthiness of an optional string: \<open>undefined\<close>, \<open>null\<close> and the empty
  string are falsy.  \<open>a || b\<close> on optional strings keeps the first truthy operand.
\<close>

definition truthy :: "string option \<Rightarrow> bool" where
  "truthy v = (case v of None \<Rightarrow> False | Some s \<Rightarrow> s \<noteq> [])"

definition or_else :: "string option \<Rightarrow> string option \<Rightarrow> string option" where
  "or_else a b = (if truthy a then a else b)"

text \<open>The result of a \<open>try\<close> body: it threw (with the exception's message) or returned.\<close>

datatype 'a outcome = Threw string | Returned 'a

text \<open>
  The characters JavaScript counts as white space (the class \<open>\s\<close> of a regular expression
  and what \<open>trim\<close> removes), in UTF-8: tab, line feed, vertical tab, form feed, carriage
  return, space, U+00A0, U+1680, U+2000 to U+200A, U+2028, U+2029, U+202F, U+205F, U+3000
  and U+FEFF.
\<close>

definition ws_tokens :: "string list" where
  "ws_tokens =
    [[CHR 0x09], [CHR 0x0A], [CHR 0x0B], [CHR 0x0C], [CHR 0x0D], [CHR 0x20],
     [CHR 0xC2, CHR 0xA0], [CHR 0xE1, CHR 0x9A, CHR 0x80],
     [CHR 0xE2, CHR 0x80, CHR 0x80], [CHR 0xE2, CHR 0x80, CHR 0x81], [CHR 0xE2, CHR 0x80, CHR 0x82],
     [CHR 0xE2, CHR 0x80, CHR 0x83], [CHR 0xE2, CHR 0x80, CHR 0x84], [CHR 0xE2, CHR 0x80, CHR 0x85],
     [CHR 0xE2, CHR 0x80, CHR 0x86], [CHR 0xE2, CHR 0x80, CHR 0x87], [CHR 0xE2, CHR 0x80, CHR 0x88],
     [CHR 0xE2, CHR 0x80, CHR 0x89], [CHR 0xE2, CHR 0x80, CHR 0x8A],
     [CHR 0xE2, CHR 0x80, CHR 0xA8], [CHR 0xE2, CHR 0x80, CHR 0xA9], [CHR 0xE2, CHR 0x80, CHR 0xAF],
     [CHR 0xE2, CHR 0x81, CHR 0x9F], [CHR 0xE3, CHR 0x80, CHR 0x80], [CHR 0xEF, CHR 0xBB, CHR 0xBF]]"

text \<open>One leading token of \<open>toks\<close> removed from \<open>s\<close>, if \<open>s\<close> starts with one.\<close>

definition dropToken :: "string list \<Rightarrow> string \<Rightarrow> string option" where
  "dropToken toks s =
     (case find (\<lambda>t. t \<noteq> [] \<and> startsWith s t) toks of
        None \<Rightarrow> None
      | Some t \<Rightarrow> Some (drop (length t) s))"

function dropTokens :: "string list \<Rightarrow> string \<Rightarrow> string" where
  "dropTokens toks s = (case dropToken toks s of None \<Rightarrow> s | Some r \<Rightarrow> dropTokens toks r)"
  by pat_completeness auto
termination
proof (relation "measure (\<lambda>(toks, s). length s)")
  show "wf (measure (\<lambda>(toks, s). length s))" by simp
next
  fix toks :: "string list" and s r :: string
  assume a: "dropToken toks s = Some r"
  have len: "startsWith u t \<Longrightarrow> length t \<le> length u" for u t
    by (induction u t rule: startsWith.induct) auto
  from a obtain t where f: "find (\<lambda>t. t \<noteq> [] \<and> startsWith s t) toks = Some t"
    and r: "r = drop (length t) s"
    by (auto simp: dropToken_def split: option.splits)
  from f have "t \<noteq> [] \<and> startsWith s t"
    by (auto simp: find_Some_iff)
  then have "0 < length t" and "length t \<le> length s"
    by (auto dest: len)
  with r show "((toks, r), (toks, s)) \<in> measure (\<lambda>(toks, s). length s)"
    by (cases t) auto
qed

declare dropTokens.simps [simp del]

definition trimStart :: "string \<Rightarrow> string" where
  "trimStart s = dropTokens ws_tokens s"

definition trimEnd :: "string \<Rightarrow> string" where
  "trimEnd s = rev (dropTokens (map rev ws_tokens) (rev s))"

definition trim :: "string \<Rightarrow> string" where
  "trim s = trimStart (trimEnd s)"

text \<open>The truthy value of an optional string, if it has one.\<close>

definition truthyValue :: "string option \<Rightarrow> string option" where
  "truthyValue v = (if truthy v then v else None)"

text \<open>\<open>s.split(sep)\<close> for a separator of one character: the pieces between its occurrences.\<close>

fun splitBy :: "char \<Rightarrow> string \<Rightarrow> string list" where
  "splitBy sep [] = [[]]"
| "splitBy sep (c # cs) =
     (if c = sep then [] # splitBy sep cs
      else (case splitBy sep cs of
              piece # pieces \<Rightarrow> (c # piece) # pieces
            | [] \<Rightarrow> [[c]]))"

section \<open>The Code Validator (TypeScriptValidator)\<close>

datatype error_kind =
  SYNTAX_ERROR | TYPE_ERROR | FIGMA_API_ERROR | COLOR_FORMAT | FIGMA_API | VALIDATION_ERROR

record ValidationError =
  errType :: error_kind
  message :: string
  line :: nat
  suggestion :: string
  fragment :: string

record ValidationWarning =
  warnMessage :: string

text \<open>
  The syntax tree \<open>ts.createSourceFile\<close> returns, as far as the validator inspects it.  An
  object literal and a property access carry what the validator reads off the source file
  for them: the line of \<open>node.getStart()\<close> (already \<open>+ 1\<close>) and the first 100 characters of
  \<open>node.getText()\<close>.  A numeric literal carries the number \<open>parseFloat\<close> reads from its text and
  the way a template literal prints that number.  The children of a node are listed in the
  order \<open>ts.forEachChild\<close> visits them.
\<close>

datatype ts_node =
    ObjectLiteralExpression nat string "ts_property list"
  | PropertyAccessExpression nat string ts_node string
  | Identifier string
  | NumericLiteral rat string
  | OtherNode "ts_node list"
and ts_property =
    PropertyAssignment ts_node ts_node
  | OtherElement "ts_node list"

text \<open>\<open>ts.isPropertyAssignment(p) && ts.isIdentifier(p.name) && p.name.text === k\<close>\<close>

fun isNamed :: "string \<Rightarrow> ts_property \<Rightarrow> bool" where
  "isNamed k (PropertyAssignment (Identifier n) v) = (n = k)"
| "isNamed k p = False"

definition hasKey :: "string \<Rightarrow> ts_property list \<Rightarrow> bool" where
  "hasKey k properties = list_ex (isNamed k) properties"

definition alphaMessage :: string where
  "alphaMessage = ''Color objects must not include '' @ [CHR 0x22] @ ''a'' @ [CHR 0x22] @ '' (alpha) property''"

definition alphaSuggestion :: string where
  "alphaSuggestion = ''Remove '' @ [CHR 0x22] @ ''a'' @ [CHR 0x22]
     @ '' property, use only {r, g, b} format. Set opacity separately.''"

text \<open>The loop of \<open>validateColorFormat\<close> over the properties: the first channel out of range.\<close>

fun rangeError :: "nat \<Rightarrow> string \<Rightarrow> ts_property list \<Rightarrow> ValidationError option" where
  "rangeError lno txt [] = None"
| "rangeError lno txt (PropertyAssignment (Identifier n) (NumericLiteral v shown) # ps) =
     (if n \<in> set [''r'', ''g'', ''b''] \<and> (v < 0 \<or> v > 1)
      then Some \<lparr> errType = COLOR_FORMAT,
                  message = ''Color values must be between 0 and 1, got '' @ shown,
                  line = lno,
                  suggestion = ''Convert '' @ shown @ '' to 0-1 range (divide by 255 if needed)'',
                  fragment = txt \<rparr>
      else rangeError lno txt ps)"
| "rangeError lno txt (p # ps) = rangeError lno txt ps"

definition validateColorFormat :: "nat \<Rightarrow> string \<Rightarrow> ts_property list \<Rightarrow> ValidationError option" where
  "validateColorFormat lno txt properties =
     (if hasKey ''r'' properties \<and> hasKey ''g'' properties \<and> hasKey ''b'' properties
      then (if hasKey ''a'' properties
            then Some \<lparr> errType = COLOR_FORMAT, message = alphaMessage, line = lno,
                        suggestion = alphaSuggestion, fragment = txt \<rparr>
            else rangeError lno txt properties)
      else None)"

definition validMethods :: "string list" where
  "validMethods =
    [''currentPage'', ''root'', ''viewport'', ''mixed'', ''ui'', ''clientStorage'', ''parameters'',
     ''teamLibrary'', ''createFrame'', ''createRectangle'', ''createText'', ''createEllipse'',
     ''createLine'', ''createPolygon'', ''createStar'', ''createVector'', ''createGroup'',
     ''createSlice'', ''createComponent'', ''createComponentSet'', ''createInstance'',
     ''createBooleanOperation'', ''createPage'', ''closePlugin'', ''notify'', ''showUI'',
     ''importComponentByKeyAsync'', ''importStyleByKeyAsync'', ''importComponentSetByKeyAsync'',
     ''getLocalPaintStyles'', ''getLocalTextStyles'', ''getLocalEffectStyles'',
     ''getLocalGridStyles'', ''createPaintStyle'', ''createTextStyle'', ''createEffectStyle'',
     ''createGridStyle'', ''getNodeById'', ''getNodeByIdAsync'', ''getStyleById'', ''loadFontAsync'',
     ''listAvailableFontsAsync'', ''exportAsync'', ''getImageAsync'', ''loadAsync'', ''saveAsync'',
     ''createImage'', ''createImagePaint'', ''createSolidPaint'', ''createGradientPaint'',
     ''variables'', ''createVariable'', ''createVariableCollection'']"

definition figmaApiSuggestion :: string where
  "figmaApiSuggestion = ''Check Figma Plugin API documentation for correct method name. ''
     @ ''Common methods include: createFrame, createRectangle, createText, importComponentByKeyAsync''"

fun validateFigmaApiUsage :: "nat \<Rightarrow> string \<Rightarrow> ts_node \<Rightarrow> string \<Rightarrow> ValidationError option" where
  "validateFigmaApiUsage lno txt (Identifier obj) methodName =
     (if obj = ''figma'' \<and> methodName \<notin> set validMethods
      then Some \<lparr> errType = FIGMA_API,
                  message = ''Unknown Figma API method: figma.'' @ methodName,
                  line = lno, suggestion = figmaApiSuggestion, fragment = txt \<rparr>
      else None)"
| "validateFigmaApiUsage lno txt e methodName = None"

definition opt_list :: "'a option \<Rightarrow> 'a list" where
  "opt_list v = (case v of None \<Rightarrow> [] | Some x \<Rightarrow> [x])"

text \<open>
  \<open>visit\<close> of \<open>validateFigmaSpecifics\<close>: the node itself first, then its children in order.
  The children of an object literal are its properties; those of a property assignment are
  its name and its initializer; those of a property access are its expression and its name
  (an identifier, on which neither check fires).
\<close>

fun visit :: "ts_node \<Rightarrow> ValidationError list"
  and visit_nodes :: "ts_node list \<Rightarrow> ValidationError list"
  and visit_property :: "ts_property \<Rightarrow> ValidationError list"
  and visit_properties :: "ts_property list \<Rightarrow> ValidationError list" where
  "visit (ObjectLiteralExpression lno txt ps) =
     opt_list (validateColorFormat lno txt ps) @ visit_properties ps"
| "visit (PropertyAccessExpression lno txt e n) =
     opt_list (validateFigmaApiUsage lno txt e n) @ visit e"
| "visit (Identifier n) = []"
| "visit (NumericLiteral v shown) = []"
| "visit (OtherNode ns) = visit_nodes ns"
| "visit_nodes [] = []"
| "visit_nodes (n # ns) = visit n @ visit_nodes ns"
| "visit_property (PropertyAssignment k v) = visit k @ visit v"
| "visit_property (OtherElement ns) = visit_nodes ns"
| "visit_properties [] = []"
| "visit_properties (p # ps) = visit_property p @ visit_properties ps"

text \<open>
  What the validator obtains from outside its own code for one script: the parsed source file
  (or the exception of the parser, which the outer \<open>catch\<close> turns into a result), the
  semantic diagnostics that pass \<open>shouldIgnoreTypeError\<close> (message, line, code fragment; empty
  when the semantic analysis itself failed, which the inner \<open>catch\<close> only logs), and the
  matches of the one layout pattern of \<open>validateFigmaSpecifics\<close> (line, first 100 characters).
\<close>

record Diagnostic =
  diagMessage :: string
  diagLine :: nat
  diagFragment :: string

record ValidatorInput =
  sourceFile :: "ts_node outcome"
  semanticDiagnostics :: "Diagnostic list"
  layoutPatternMatches :: "(nat \<times> string) list"

definition getSuggestionForError :: "string \<Rightarrow> string" where
  "getSuggestionForError m =
     (if str_includes m ''Property'' \<and> str_includes m ''does not exist''
      then ''Check property name spelling and Figma API documentation''
      else if str_includes m ''Type'' \<and> str_includes m ''is not assignable''
      then ''Check type compatibility with Figma API interfaces''
      else if str_includes m ''Cannot find name''
      then ''Ensure all variables and functions are properly defined''
      else if str_includes m ''await'' \<or> str_includes m ''Promise''
      then ''Async methods require await keyword. Store result in variable before using.''
      else ''Review TypeScript and Figma API documentation'')"

definition typeError :: "Diagnostic \<Rightarrow> ValidationError" where
  "typeError d = \<lparr> errType = TYPE_ERROR, message = diagMessage d, line = diagLine d,
                   suggestion = getSuggestionForError (diagMessage d),
                   fragment = diagFragment d \<rparr>"

definition layoutError :: "nat \<times> string \<Rightarrow> ValidationError" where
  "layoutError m = \<lparr> errType = FIGMA_API_ERROR,
                     message = ''Setting layout properties after appendChild'',
                     line = fst m,
                     suggestion = ''Set layout properties before adding to parent'',
                     fragment = snd m \<rparr>"

definition validateFigmaSpecifics :: "ts_node \<Rightarrow> (nat \<times> string) list \<Rightarrow> ValidationError list" where
  "validateFigmaSpecifics sf matches = map layoutError matches @ visit sf"

text \<open>
  The remediation text the validator derives (\<open>generateLearningContext\<close>) and every other
  text that ends up in \<open>state.learning\<close> is kept as the data it is rendered from.
\<close>

datatype reason =
    NoSatisfyingNode
  | MatchedReason
  | DeleteTargetUndefined
  | TargetNotDeleted
  | PropertiesDiffer "string list" "string list"
  | TargetNotModified
  | NamedNodeNotCreated
  | CreatedIdMismatch

record MissingTodo =
  missingId :: string
  missingTask :: string
  missingType :: string
  missingReason :: reason

datatype learning =
    LearningText string
  | NoIssuesFound
  | ValidationReport "ValidationError list" "ValidationWarning list"
  | ValidationSystemError
  | BasicValidationFailed "string list"
  | RecoveryTemplate string string
  | MissingTodosPayload "learning option" "MissingTodo list"

record TsValidation =
  success :: bool
  errors :: "ValidationError list"
  warnings :: "ValidationWarning list"
  learningContext :: learning

definition generateLearningContextV :: "ValidationError list \<Rightarrow> ValidationWarning list \<Rightarrow> learning" where
  "generateLearningContextV es ws = (if es = [] \<and> ws = [] then NoIssuesFound else ValidationReport es ws)"

definition validateFigmaCode :: "ValidatorInput \<Rightarrow> TsValidation" where
  "validateFigmaCode inp =
     (case sourceFile inp of
        Threw m \<Rightarrow>
          \<lparr> success = False,
            errors = [\<lparr> errType = VALIDATION_ERROR,
                        message = ''TypeScript validation failed: '' @ m,
                        line = 0, suggestion = ''Check code syntax and structure'',
                        fragment = [] \<rparr>],
            warnings = [],
            learningContext = ValidationSystemError \<rparr>
      | Returned sf \<Rightarrow>
          (let allErrors = map typeError (semanticDiagnostics inp)
                             @ validateFigmaSpecifics sf (layoutPatternMatches inp)
           in \<lparr> success = (allErrors = []),
                errors = allErrors,
                warnings = [],
                learningContext = generateLearningContextV allErrors [] \<rparr>))"


section \<open>The Error Recovery Engine\<close>

definition kw_strategy :: string where
  "kw_strategy = [CHR 0xEC, CHR 0xA0, CHR 0x84, CHR 0xEB, CHR 0x9E, CHR 0xB5]"

definition kw_design :: string where
  "kw_design = [CHR 0xEB, CHR 0x94, CHR 0x94, CHR 0xEC, CHR 0x9E, CHR 0x90, CHR 0xEC, CHR 0x9D, CHR 0xB8]"

definition kw_generate :: string where
  "kw_generate = [CHR 0xEC, CHR 0x83, CHR 0x9D, CHR 0xEC, CHR 0x84, CHR 0xB1]"

definition kw_validate :: string where
  "kw_validate = [CHR 0xEA, CHR 0xB2, CHR 0x80, CHR 0xEC, CHR 0xA6, CHR 0x9D]"

definition kw_execute :: string where
  "kw_execute = [CHR 0xEC, CHR 0x8B, CHR 0xA4, CHR 0xED, CHR 0x96, CHR 0x89]"

definition categorizeError :: "string \<Rightarrow> string" where
  "categorizeError e =
     (if str_includes e ''Planning'' \<or> str_includes e kw_strategy then ''planning''
      else if str_includes e ''Design'' \<or> str_includes e kw_design then ''figma-design''
      else if str_includes e kw_generate \<or> str_includes e ''Generate'' then ''generation''
      else if str_includes e kw_validate \<or> str_includes e ''Validation'' then ''validation''
      else if str_includes e kw_execute \<or> str_includes e ''Execute'' then ''execution''
      else ''unknown'')"

record ErrorRecord =
  errCode :: string
  errorMessage :: string
  errorType :: string

definition analyzeErrorPattern :: "ErrorRecord list \<Rightarrow> string" where
  "analyzeErrorPattern errorHistory =
     (if errorHistory = [] then ''first_error''
      else let lastError = last errorHistory;
               similarErrors = filter (\<lambda>e. errorType e = errorType lastError) errorHistory
           in if length similarErrors > 2 then ''recurring_error''
              else if length errorHistory > 5 then ''persistent_failures''
              else ''isolated_error'')"

definition determineRecoveryStrategy :: "string \<Rightarrow> int \<Rightarrow> string \<Rightarrow> string" where
  "determineRecoveryStrategy errType' retryCount' errorPattern =
     (if retryCount' \<ge> 3 \<or> errorPattern = ''persistent_failures'' then ''abort''
      else if errType' = ''execution'' \<and> retryCount' > 1 then ''partial_recovery''
      else if errorPattern = ''first_error'' \<or> errorPattern = ''isolated_error''
      then ''retry_with_learning''
      else ''abort'')"


section \<open>Literals\<close>

text \<open>The Korean literals of the orchestrator that reach the state, as UTF-8 bytes.\<close>

text \<open>\<open>err_planning_failed\<close>: the prefix of the planning step's error.\<close>

definition err_planning_failed :: string where
  "err_planning_failed =
     [CHR 0xEC, CHR 0xA0, CHR 0x84, CHR 0xEB, CHR 0x9E, CHR 0xB5] @ '' '' @ [CHR 0xEC,
     CHR 0x88, CHR 0x98, CHR 0xEB, CHR 0xA6, CHR 0xBD] @ '' '' @ [CHR 0xEC, CHR 0x8B, CHR 0xA4,
     CHR 0xED, CHR 0x8C, CHR 0xA8] @ '': ''"

text \<open>\<open>err_no_plan\<close>: designTodos without a plan.\<close>

definition err_no_plan :: string where
  "err_no_plan =
     ''Planning '' @ [CHR 0xEA, CHR 0xB2, CHR 0xB0, CHR 0xEA, CHR 0xB3, CHR 0xBC, CHR 0xEA,
     CHR 0xB0, CHR 0x80] @ '' '' @ [CHR 0xEC, CHR 0x97, CHR 0x86, CHR 0xEC, CHR 0x8A, CHR 0xB5,
     CHR 0xEB, CHR 0x8B, CHR 0x88, CHR 0xEB, CHR 0x8B, CHR 0xA4] @ ''. Planning '' @ [CHR 0xEB,
     CHR 0x8B, CHR 0xA8, CHR 0xEA, CHR 0xB3, CHR 0x84, CHR 0xEB, CHR 0xA5, CHR 0xBC] @ '' '' @
     [CHR 0xEB, CHR 0xA8, CHR 0xBC, CHR 0xEC, CHR 0xA0, CHR 0x80] @ '' '' @ [CHR 0xEC,
     CHR 0x88, CHR 0x98, CHR 0xED, CHR 0x96, CHR 0x89, CHR 0xED, CHR 0x95, CHR 0xB4, CHR 0xEC,
     CHR 0xA3, CHR 0xBC, CHR 0xEC, CHR 0x84, CHR 0xB8, CHR 0xEC, CHR 0x9A, CHR 0x94] @ ''.''"

text \<open>\<open>err_design_failed\<close>: the prefix of the design step's error.\<close>

definition err_design_failed :: string where
  "err_design_failed =
     [CHR 0xEB, CHR 0x94, CHR 0x94, CHR 0xEC, CHR 0x9E, CHR 0x90, CHR 0xEC, CHR 0x9D,
     CHR 0xB8] @ '' '' @ [CHR 0xEA, CHR 0xB2, CHR 0xB0, CHR 0xEC, CHR 0xA0, CHR 0x95] @ '' '' @
     [CHR 0xEC, CHR 0x8B, CHR 0xA4, CHR 0xED, CHR 0x8C, CHR 0xA8] @ '': ''"

text \<open>\<open>err_no_plan_or_design\<close>: generateCode without plan or design.\<close>

definition err_no_plan_or_design :: string where
  "err_no_plan_or_design =
     ''Planning '' @ [CHR 0xEB, CHR 0x98, CHR 0x90, CHR 0xEB, CHR 0x8A, CHR 0x94] @
     '' Design '' @ [CHR 0xEA, CHR 0xB2, CHR 0xB0, CHR 0xEA, CHR 0xB3, CHR 0xBC, CHR 0xEA,
     CHR 0xB0, CHR 0x80] @ '' '' @ [CHR 0xEC, CHR 0x97, CHR 0x86, CHR 0xEC, CHR 0x8A, CHR 0xB5,
     CHR 0xEB, CHR 0x8B, CHR 0x88, CHR 0xEB, CHR 0x8B, CHR 0xA4] @ ''.''"

text \<open>\<open>err_generation_failed\<close>: the prefix of the generate step's error.\<close>

definition err_generation_failed :: string where
  "err_generation_failed =
     [CHR 0xEC, CHR 0xBD, CHR 0x94, CHR 0xEB, CHR 0x93, CHR 0x9C] @ '' '' @ [CHR 0xEC,
     CHR 0x83, CHR 0x9D, CHR 0xEC, CHR 0x84, CHR 0xB1] @ '' '' @ [CHR 0xEC, CHR 0x8B, CHR 0xA4,
     CHR 0xED, CHR 0x8C, CHR 0xA8] @ '': ''"

text \<open>\<open>err_no_generated_code\<close>: validateCode without generated code.\<close>

definition err_no_generated_code :: string where
  "err_no_generated_code =
     [CHR 0xEC, CHR 0x83, CHR 0x9D, CHR 0xEC, CHR 0x84, CHR 0xB1, CHR 0xEB, CHR 0x90,
     CHR 0x9C] @ '' '' @ [CHR 0xEC, CHR 0xBD, CHR 0x94, CHR 0xEB, CHR 0x93, CHR 0x9C, CHR 0xEA,
     CHR 0xB0, CHR 0x80] @ '' '' @ [CHR 0xEC, CHR 0x97, CHR 0x86, CHR 0xEC, CHR 0x8A, CHR 0xB5,
     CHR 0xEB, CHR 0x8B, CHR 0x88, CHR 0xEB, CHR 0x8B, CHR 0xA4] @ ''.''"

text \<open>\<open>err_validation_failed\<close>: the prefix of the validate step's error.\<close>

definition err_validation_failed :: string where
  "err_validation_failed =
     [CHR 0xEA, CHR 0xB2, CHR 0x80, CHR 0xEC, CHR 0xA6, CHR 0x9D] @ '' '' @ [CHR 0xEC,
     CHR 0x8B, CHR 0xA4, CHR 0xED, CHR 0x8C, CHR 0xA8] @ '': ''"

text \<open>\<open>err_no_code_to_run\<close>: executeCode without generated code.\<close>

definition err_no_code_to_run :: string where
  "err_no_code_to_run =
     [CHR 0xEC, CHR 0x8B, CHR 0xA4, CHR 0xED, CHR 0x96, CHR 0x89, CHR 0xED, CHR 0x95,
     CHR 0xA0] @ '' '' @ [CHR 0xEC, CHR 0xBD, CHR 0x94, CHR 0xEB, CHR 0x93, CHR 0x9C, CHR 0xEA,
     CHR 0xB0, CHR 0x80] @ '' '' @ [CHR 0xEC, CHR 0x97, CHR 0x86, CHR 0xEC, CHR 0x8A, CHR 0xB5,
     CHR 0xEB, CHR 0x8B, CHR 0x88, CHR 0xEB, CHR 0x8B, CHR 0xA4]"

text \<open>\<open>err_unknown_step\<close>: the prefix of the unknown-step error of executeStep.\<close>

definition err_unknown_step :: string where
  "err_unknown_step =
     [CHR 0xEC, CHR 0x95, CHR 0x8C] @ '' '' @ [CHR 0xEC, CHR 0x88, CHR 0x98] @ '' '' @
     [CHR 0xEC, CHR 0x97, CHR 0x86, CHR 0xEB, CHR 0x8A, CHR 0x94] @ '' '' @ [CHR 0xEC,
     CHR 0x8A, CHR 0xA4, CHR 0xED, CHR 0x85, CHR 0x9D, CHR 0xEC, CHR 0x9E, CHR 0x85, CHR 0xEB,
     CHR 0x8B, CHR 0x88, CHR 0xEB, CHR 0x8B, CHR 0xA4] @ '': ''"

text \<open>\<open>err_no_figma_call\<close>: fallback check, no Figma API call.\<close>

definition err_no_figma_call :: string where
  "err_no_figma_call =
     ''Figma API '' @ [CHR 0xED, CHR 0x98, CHR 0xB8, CHR 0xEC, CHR 0xB6, CHR 0x9C, CHR 0xEC,
     CHR 0x9D, CHR 0xB4] @ '' '' @ [CHR 0xEC, CHR 0x97, CHR 0x86, CHR 0xEC, CHR 0x8A, CHR 0xB5,
     CHR 0xEB, CHR 0x8B, CHR 0x88, CHR 0xEB, CHR 0x8B, CHR 0xA4]"

text \<open>\<open>err_await_outside_async\<close>: fallback check, await without async.\<close>

definition err_await_outside_async :: string where
  "err_await_outside_async =
     ''async '' @ [CHR 0xED, CHR 0x95, CHR 0xA8, CHR 0xEC, CHR 0x88, CHR 0x98] @ '' '' @
     [CHR 0xEB, CHR 0x82, CHR 0xB4, CHR 0xEC, CHR 0x97, CHR 0x90, CHR 0xEC, CHR 0x84, CHR 0x9C,
     CHR 0xEB, CHR 0xA7, CHR 0x8C] @ '' await '' @ [CHR 0xEC, CHR 0x82, CHR 0xAC, CHR 0xEC,
     CHR 0x9A, CHR 0xA9] @ '' '' @ [CHR 0xEA, CHR 0xB0, CHR 0x80, CHR 0xEB, CHR 0x8A, CHR 0xA5]"

text \<open>\<open>question_goal\<close>: first open question of a new screen.\<close>

definition question_goal :: string where
  "question_goal =
     [CHR 0xEC, CHR 0x8B, CHR 0xA0, CHR 0xEA, CHR 0xB7, CHR 0x9C] @ '' '' @ [CHR 0xED,
     CHR 0x99, CHR 0x94, CHR 0xEB, CHR 0xA9, CHR 0xB4, CHR 0xEC, CHR 0x9D, CHR 0x98] @ '' '' @
     [CHR 0xED, CHR 0x95, CHR 0xB5, CHR 0xEC, CHR 0x8B, CHR 0xAC] @ '' '' @ [CHR 0xEC,
     CHR 0x82, CHR 0xAC, CHR 0xEC, CHR 0x9A, CHR 0xA9, CHR 0xEC, CHR 0x9E, CHR 0x90] @ '' '' @
     [CHR 0xEB, CHR 0xAA, CHR 0xA9, CHR 0xED, CHR 0x91, CHR 0x9C, CHR 0xEA, CHR 0xB0,
     CHR 0x80] @ '' '' @ [CHR 0xEB, CHR 0xAC, CHR 0xB4, CHR 0xEC, CHR 0x97, CHR 0x87, CHR 0xEC,
     CHR 0x9D, CHR 0xB8, CHR 0xEA, CHR 0xB0, CHR 0x80, CHR 0xEC, CHR 0x9A, CHR 0x94] @ ''?''"

text \<open>\<open>question_content\<close>: second open question of a new screen.\<close>

definition question_content :: string where
  "question_content =
     [CHR 0xED, CHR 0x95, CHR 0x84, CHR 0xEC, CHR 0x88, CHR 0x98, CHR 0xEB, CHR 0xA1,
     CHR 0x9C] @ '' '' @ [CHR 0xEB, CHR 0x85, CHR 0xB8, CHR 0xEC, CHR 0xB6, CHR 0x9C, CHR 0xEB,
     CHR 0x90, CHR 0x98, CHR 0xEC, CHR 0x96, CHR 0xB4, CHR 0xEC, CHR 0x95, CHR 0xBC] @ '' '' @
     [CHR 0xED, CHR 0x95, CHR 0x98, CHR 0xEB, CHR 0x8A, CHR 0x94] @ '' '' @ [CHR 0xEB,
     CHR 0x8D, CHR 0xB0, CHR 0xEC, CHR 0x9D, CHR 0xB4, CHR 0xED, CHR 0x84, CHR 0xB0, CHR 0xEB,
     CHR 0x82, CHR 0x98] @ '' '' @ [CHR 0xEC, CHR 0xBD, CHR 0x98, CHR 0xED, CHR 0x85, CHR 0x90,
     CHR 0xEC, CHR 0xB8, CHR 0xA0, CHR 0xEA, CHR 0xB0, CHR 0x80] @ '' '' @ [CHR 0xEC, CHR 0x9E,
     CHR 0x88, CHR 0xEB, CHR 0x82, CHR 0x98, CHR 0xEC, CHR 0x9A, CHR 0x94] @ ''?''"

text \<open>\<open>desc_last_execution\<close>: description of the report requested by executeCode.\<close>

definition desc_last_execution :: string where
  "desc_last_execution =
     [CHR 0xEB, CHR 0xA7, CHR 0x88, CHR 0xEC, CHR 0xA7, CHR 0x80, CHR 0xEB, CHR 0xA7,
     CHR 0x89] @ '' '' @ [CHR 0xEC, CHR 0xBD, CHR 0x94, CHR 0xEB, CHR 0x93, CHR 0x9C] @ '' '' @
     [CHR 0xEC, CHR 0x8B, CHR 0xA4, CHR 0xED, CHR 0x96, CHR 0x89] @ '' '' @ [CHR 0xEA,
     CHR 0xB2, CHR 0xB0, CHR 0xEA, CHR 0xB3, CHR 0xBC]"

text \<open>\<open>desc_recent_execution\<close>: description of the report requested again by verifyExecution.\<close>

definition desc_recent_execution :: string where
  "desc_recent_execution =
     [CHR 0xEC, CHR 0xB5, CHR 0x9C, CHR 0xEA, CHR 0xB7, CHR 0xBC] @ '' '' @ [CHR 0xEC,
     CHR 0xBD, CHR 0x94, CHR 0xEB, CHR 0x93, CHR 0x9C] @ '' '' @ [CHR 0xEC, CHR 0x8B, CHR 0xA4,
     CHR 0xED, CHR 0x96, CHR 0x89] @ '' '' @ [CHR 0xEA, CHR 0xB2, CHR 0xB0, CHR 0xEA, CHR 0xB3,
     CHR 0xBC]"

section \<open>The workflow's data (workflow-types)\<close>

text \<open>
  Records of the source are records here, with the fields the orchestrator reads or writes.
  A field name that two interfaces share is prefixed in the second one.  Left out, as they
  neither steer a step nor are read back by one: timestamps (\<open>Date.now()\<close>), the legacy
  \<open>analysisResult\<close>, the detailed \<open>validation\<close> and \<open>executionResult\<close> reports, component
  guides, and the descriptive texts of blueprint screens, scenarios and plans.  An object
  with string keys (\<open>Record<string, _>\<close>, \<open>Map<string, _>\<close>) is a map; \<open>{...a, ...b}\<close> is
  \<open>a ++ b\<close>.
\<close>

record RequestedAsset =
  assetType :: string
  assetId :: "string option"
  assetDescription :: string

record RequestedContext =
  nodeIds :: "string list"
  assets :: "RequestedAsset list"
  questions :: "string list"

definition EMPTY_REQUESTED_CONTEXT :: RequestedContext where
  "EMPTY_REQUESTED_CONTEXT = \<lparr> nodeIds = [], assets = [], questions = [] \<rparr>"

record TodoItem =
  todoId :: string
  task :: string
  todoType :: string
  targetNode :: "string option"
  targetNodeId :: "string option"
  scenarioId :: "string option"
  expectedVariantProps :: "(string \<times> string) list option"

record PlanningResult =
  strategy :: string
  defaultScenarioId :: "string option"
  todoList :: "TodoItem list"

record ParentRef =
  parentTodoId :: "string option"
  existingNodeId :: "string option"

text \<open>
  A \<open>TodoDesign\<close> with its \<open>design\<close> object flattened.  \<open>nodeName\<close> is optional because the
  matcher itself tests \<open>typeof nodeName === "string"\<close>.
\<close>

record TodoDesign =
  designTodoId :: string
  designTargetNode :: "string option"
  designTargetNodeId :: "string option"
  designScenarioId :: "string option"
  nodeName :: "string option"
  parent :: "ParentRef option"
  designExpectedVariantProps :: "(string \<times> string) list option"

record DesignResult =
  todoDesigns :: "TodoDesign list"
  executionOrder :: "string list"
  parentChildMap :: "string \<rightharpoonup> string"

record TodoImplementation =
  implTodoId :: string
  codeLines :: "nat \<times> nat"
  implemented :: bool

record GenerationResult =
  genCode :: string
  todoImplementation :: "string \<rightharpoonup> TodoImplementation"

record CreatedNode =
  createdId :: string
  createdName :: string
  createdParentId :: "string option"

text \<open>
  A value under a key of a reported node's \<open>variantProps\<close> object.  The type says string; the
  report arrives as JSON from the caller, so the value can be anything JSON carries.
  \<open>NonText\<close> is every value that is neither a string nor \<open>undefined\<close>.
\<close>

datatype variant_value = Text string | NonText

record UpdatedNode =
  updatedId :: string
  updatedName :: string
  changedProperties :: "string list"
  variantProps :: "(string \<times> variant_value) list option"

record ExecutionReport =
  createdNodes :: "CreatedNode list"
  updatedNodes :: "UpdatedNode list"
  deletedNodeIds :: "string list"
  createdNodeIds :: "string list"
  reportError :: "string option"

record CollectedAssets =
  execution_report :: "ExecutionReport option"
  otherAssets :: "string \<rightharpoonup> string"

record CollectedContext =
  nodeDetails :: "string \<rightharpoonup> string"
  collectedAssets :: CollectedAssets
  answers :: "string \<rightharpoonup> string"

text \<open>
  The assets of a context update may or may not carry the key \<open>execution_report\<close>; when
  they do, its value may be \<open>null\<close>.
\<close>

record AssetsUpdate =
  updExecutionReport :: "ExecutionReport option option"
  updOtherAssets :: "string \<rightharpoonup> string"

record ContextUpdatePayload =
  updNodeDetails :: "(string \<rightharpoonup> string) option"
  updAssets :: "AssetsUpdate option"
  updAnswers :: "(string \<rightharpoonup> string) option"

record SelectedNode =
  selectedId :: string
  selectedType :: string

record FigmaContext =
  selectedNodes :: "SelectedNode list"

record BlueprintScreen =
  screenId :: string
  screenType :: string
  relatedNodeIds :: "string list"

record ProductBlueprint =
  screens :: "BlueprintScreen list"
  requiredContext :: RequestedContext

text \<open>Of the legacy \<open>validationResult\<close> only the verdict is kept.\<close>

record LegacyValidation =
  isValid :: bool

text \<open>
  The progress texts pushed to \<open>state.thoughts\<close> and the reasons the matcher reports are
  template literals in Korean; each is kept as the template's name with the values it
  interpolates (the reasons are declared with the learning payload above).  \<open>Said\<close> is a text that was already in a state handed in by the caller.
\<close>

datatype thought =
    Said string
  | BlueprintStart
  | BlueprintDone
  | PlanStart string
  | PlanDone string nat
  | DesignStart
  | DesignDone nat
  | GenerateStart int int
  | LearningApplied string
  | GenerateDone string nat
  | ValidateStart
  | ValidateOk
  | ValidateRetry
  | ValidateFallback
  | ExecuteStart
  | ExecuteHandOff
  | RecoveryStart
  | RecoveryRetry int int
  | RecoveryPartial
  | RecoveryAbort "string option"
  | VerifyStart
  | VerifyDone nat nat nat
  | VerifyMissing "MissingTodo list"
  | VerifyRetry

text \<open>
  The summary of a run-log entry: the last thought, the default \<open>`${step} ...`\<close> line, or the
  serialized missing-TODO payload.
\<close>

datatype summary =
    ThoughtSummary thought
  | StepDone string
  | PayloadSummary learning

record RunLogEntry =
  logStep :: string
  logSummary :: summary
  logRequestedContext :: RequestedContext

record PreviousError =
  prevCode :: string
  prevError :: string

record WorkflowState =
  userPrompt :: string
  figmaContext :: "FigmaContext option"
  plan :: "PlanningResult option"
  design :: "DesignResult option"
  generation :: "GenerationResult option"
  blueprint :: "ProductBlueprint option"
  generatedCode :: "string option"
  validationResult :: "LegacyValidation option"
  previousErrors :: "PreviousError list"
  currentStep :: string
  retryCount :: int
  maxRetries :: int
  partialRetry :: bool
  stepHistory :: "string list"
  lastStepCompleted :: "string option"
  requestedContext :: "RequestedContext option"
  collectedContext :: CollectedContext
  learning :: "learning option"
  errorHistory :: "ErrorRecord list"
  successPatterns :: "string list"
  thoughts :: "thought list"
  messages :: "string list"
  isComplete :: bool
  error :: "string option"
  runLog :: "RunLogEntry list"
  executionReport :: "ExecutionReport option"

record StepResult =
  resultState :: WorkflowState
  completed :: bool
  step :: string
  nextStep :: string
  resultRequestedContext :: RequestedContext

text \<open>
  Everything one \<open>executeStep\<close> call obtains from outside the orchestrator's own code: the
  caller's options, the platform's Unicode case mapping and regular-expression syntax, and
  what the collaborators answer.
  \<^item> \<open>promptThrows\<close>: building the prompt (\<open>analyzePlanningPrompt\<close>, \<open>createGenerationPrompt\<close>)
    throws; both are called outside the step's \<open>try\<close>, so the exception leaves \<open>executeStep\<close>.
  \<^item> \<open>planningOutcome\<close>, \<open>designOutcome\<close>, \<open>generationOutcome\<close>: the \<open>try\<close> body of the step
    around the completion service, returning the normalized plan, the design with the
    response text, or the script after \<open>extractCode\<close> and \<open>applyCodeGuards\<close>.
  \<^item> \<open>learningSummary\<close>: the summary line \<open>buildLearningGuidance\<close> derives from \<open>state.learning\<close>.
  \<^item> \<open>validatorInput\<close>: what the TypeScript validator computes its verdict from for the
    generated script.  \<open>validateFigmaCode\<close> catches whatever its own body throws, so it
    always returns.
  \<^item> \<open>regexRejects\<close>: the patterns for which \<open>new RegExp(pattern, "g")\<close> throws a
    \<open>SyntaxError\<close>.
  \<^item> \<open>thoughtCallbackThrows\<close>: the thought callback throws when \<open>validateCode\<close> calls it
    inside its \<open>try\<close>, after the verdict.  The callbacks are optional arguments of the
    constructor (the step route passes none); every other call of a callback is taken to
    return.
\<close>

record StepEnv =
  contextUpdate :: "ContextUpdatePayload option"
  toLowerCase :: "string \<Rightarrow> string"
  promptThrows :: bool
  planningOutcome :: "PlanningResult outcome"
  designOutcome :: "(DesignResult \<times> string) outcome"
  learningSummary :: "string option"
  generationOutcome :: "string outcome"
  validatorInput :: ValidatorInput
  regexRejects :: "string \<Rightarrow> bool"
  thoughtCallbackThrows :: bool

text \<open>
  An exception that leaves \<open>executeStep\<close>: from building a prompt, or the \<open>TypeError\<close> of
  calling \<open>toLowerCase\<close> on a value that is not a string.
\<close>

datatype failure = PromptFailure | TypeFailure

section \<open>The Verification Matcher (the loop of verifyExecution)\<close>

definition todoPropertyHints :: "string \<Rightarrow> string list" where
  "todoPropertyHints t =
     (if t = ''style'' then [''fills'', ''text'', ''effects'', ''variables'', ''strokes'']
      else if t = ''modify''
      then [''layout'', ''size'', ''constraints'', ''component'', ''variables'', ''text'', ''fills'',
            ''effects'']
      else if t = ''delete'' then []
      else if t = ''create'' then [''name'', ''layout'', ''component'', ''text'', ''fills'']
      else [])"

text \<open>
  \<open>new Map(entries)\<close>: a later entry replaces an earlier one with the same key, so a lookup
  finds the last.
\<close>

definition designTodoMap :: "TodoDesign list \<Rightarrow> string \<rightharpoonup> TodoDesign" where
  "designTodoMap designTodos = map_of (rev (map (\<lambda>d. (designTodoId d, d)) designTodos))"

text \<open>
  The members every plain object inherits from \<open>Object.prototype\<close>, and \<open>actual[key]\<close>: an
  own property if there is one, else an inherited member (a function or an object, never a
  string), else \<open>undefined\<close>.
\<close>

definition objectPrototypeKeys :: "string list" where
  "objectPrototypeKeys =
     [''constructor'', ''hasOwnProperty'', ''isPrototypeOf'', ''propertyIsEnumerable'',
      ''toLocaleString'', ''toString'', ''valueOf'', ''__proto__'', ''__defineGetter__'',
      ''__defineSetter__'', ''__lookupGetter__'', ''__lookupSetter__'']"

definition propertyOf :: "(string \<times> variant_value) list \<Rightarrow> string \<Rightarrow> variant_value option" where
  "propertyOf obj key =
     (case map_of obj key of
        Some v \<Rightarrow> Some v
      | None \<Rightarrow> if key \<in> set objectPrototypeKeys then Some NonText else None)"

text \<open>
  \<open>Object.entries(expected).every(...)\<close> stops at the first entry that fails.
  \<open>actualValue.toLowerCase()\<close> on a value that is not a string is a \<open>TypeError\<close>.
\<close>

fun everyEntry ::
  "(string \<Rightarrow> string) \<Rightarrow> (string \<times> variant_value) list \<Rightarrow> (string \<times> string) list \<Rightarrow> failure + bool" where
  "everyEntry lc actual [] = Inr True"
| "everyEntry lc actual ((key, v) # rest) =
     (case propertyOf actual key of
        None \<Rightarrow> Inr False
      | Some NonText \<Rightarrow> Inl TypeFailure
      | Some (Text actualValue) \<Rightarrow>
          if lc actualValue = lc v then everyEntry lc actual rest else Inr False)"

text \<open>\<open>compareVariantProps\<close>: \<open>None\<close> is the source's \<open>undefined\<close> (nothing expected).\<close>

definition compareVariantProps ::
  "(string \<Rightarrow> string) \<Rightarrow> (string \<times> variant_value) list option \<Rightarrow> (string \<times> string) list option \<Rightarrow>
   failure + bool option" where
  "compareVariantProps lc actual expected =
     (case expected of
        None \<Rightarrow> Inr None
      | Some ex \<Rightarrow>
          if ex = [] then Inr None
          else (case actual of
                  None \<Rightarrow> Inr (Some False)
                | Some ac \<Rightarrow> map_sum (\<lambda>f. f) Some (everyEntry lc ac ex)))"

definition checkProperties ::
  "(string \<Rightarrow> string) \<Rightarrow> string list \<Rightarrow> (string \<times> string) list option \<Rightarrow> UpdatedNode \<Rightarrow> failure + bool" where
  "checkProperties lc expectedProps expectedVariant node =
     (let propertyMatch = (expectedProps = [] \<or>
                           list_ex (\<lambda>prop. prop \<in> set expectedProps) (changedProperties node))
      in if \<not> propertyMatch then Inr False
         else (case compareVariantProps lc (variantProps node) expectedVariant of
                 Inl f \<Rightarrow> Inl f
               | Inr None \<Rightarrow> Inr True
               | Inr (Some variantResult) \<Rightarrow> Inr variantResult))"

text \<open>\<open>target === nodeName || target.toLowerCase().includes(lowerName)\<close>\<close>

definition nameMatches :: "(string \<Rightarrow> string) \<Rightarrow> string \<Rightarrow> string \<Rightarrow> bool" where
  "nameMatches lc name target = (target = name \<or> str_includes (lc target) (lc name))"

record Evaluation =
  evTodo :: TodoItem
  matched :: bool
  evReason :: reason
  matchedNodeId :: "string option"

text \<open>
  The bookkeeping of the loop.  In \<open>todoNodeMatches\<close> only the node id of an entry is kept
  (its scenario id decorates the report and is never read by the matching).
\<close>

record MatcherState =
  todoNodeMatches :: "string \<rightharpoonup> string"
  nodeIdToCreateTodo :: "string \<rightharpoonup> string"
  nodeIdToModifyTodo :: "string \<rightharpoonup> string"
  assignedNodeIds :: "string set"
  evaluations :: "Evaluation list"

definition emptyMatcherState :: MatcherState where
  "emptyMatcherState = \<lparr> todoNodeMatches = Map.empty, nodeIdToCreateTodo = Map.empty,
                          nodeIdToModifyTodo = Map.empty, assignedNodeIds = {},
                          evaluations = [] \<rparr>"

text \<open>
  \<open>recordMatch\<close> updates the maps; the local variables it sets (\<open>matched\<close>, \<open>matchedNodeId\<close>,
  \<open>reason\<close>) become the evaluation that \<open>matchedAs\<close> appends.
\<close>

definition recordMatch :: "string \<Rightarrow> string \<Rightarrow> bool \<Rightarrow> string \<Rightarrow> MatcherState \<Rightarrow> MatcherState" where
  "recordMatch tid nodeId lockNode matchType ms =
     (let ms1 = ms \<lparr> todoNodeMatches := (todoNodeMatches ms)(tid \<mapsto> nodeId) \<rparr>;
          ms2 = (if matchType = ''create''
                 then (if nodeIdToCreateTodo ms1 nodeId = None
                       then ms1 \<lparr> nodeIdToCreateTodo := (nodeIdToCreateTodo ms1)(nodeId \<mapsto> tid) \<rparr>
                       else ms1)
                 else if matchType = ''modify'' \<or> matchType = ''style''
                 then ms1 \<lparr> nodeIdToModifyTodo := (nodeIdToModifyTodo ms1)(nodeId \<mapsto> tid) \<rparr>
                 else ms1)
      in if lockNode then ms2 \<lparr> assignedNodeIds := insert nodeId (assignedNodeIds ms2) \<rparr> else ms2)"

definition pushEvaluation :: "Evaluation \<Rightarrow> MatcherState \<Rightarrow> MatcherState" where
  "pushEvaluation ev ms = ms \<lparr> evaluations := evaluations ms @ [ev] \<rparr>"

definition matchedAs :: "TodoItem \<Rightarrow> string \<Rightarrow> bool \<Rightarrow> string \<Rightarrow> MatcherState \<Rightarrow> MatcherState" where
  "matchedAs todo nodeId lockNode matchType ms =
     pushEvaluation \<lparr> evTodo = todo, matched = True, evReason = MatchedReason,
                      matchedNodeId = Some nodeId \<rparr>
       (recordMatch (todoId todo) nodeId lockNode matchType ms)"

definition unmatched :: "TodoItem \<Rightarrow> reason \<Rightarrow> MatcherState \<Rightarrow> MatcherState" where
  "unmatched todo r ms =
     pushEvaluation \<lparr> evTodo = todo, matched = False, evReason = r, matchedNodeId = None \<rparr> ms"

text \<open>\<open>case "delete"\<close>\<close>

definition matchDelete :: "TodoItem \<Rightarrow> string option \<Rightarrow> ExecutionReport \<Rightarrow> MatcherState \<Rightarrow> MatcherState" where
  "matchDelete todo target report ms =
     (case truthyValue target of
        None \<Rightarrow> unmatched todo DeleteTargetUndefined ms
      | Some t \<Rightarrow>
          if t \<in> set (deletedNodeIds report) then matchedAs todo t False ''delete'' ms
          else unmatched todo TargetNotDeleted ms)"

text \<open>
  \<open>case "modify": case "style"\<close>.  The second half: the search by name among the updated
  nodes no modify or style TODO has been attributed yet; \<open>r\<close> is the reason set so far.
\<close>

definition matchModifyByName ::
  "(string \<Rightarrow> string) \<Rightarrow> TodoItem \<Rightarrow> reason \<Rightarrow> string option \<Rightarrow> string list \<Rightarrow>
   (string \<times> string) list option \<Rightarrow> ExecutionReport \<Rightarrow> MatcherState \<Rightarrow> failure + MatcherState" where
  "matchModifyByName lc todo r name expectedProps expectedVariant report ms =
     (case truthyValue name of
        None \<Rightarrow> Inr (unmatched todo r ms)
      | Some nm \<Rightarrow>
          (case find (\<lambda>node. nodeIdToModifyTodo ms (updatedId node) = None
                              \<and> nameMatches lc nm (updatedName node))
                     (updatedNodes report) of
             Some updatedByName \<Rightarrow>
               (case checkProperties lc expectedProps expectedVariant updatedByName of
                  Inl f \<Rightarrow> Inl f
                | Inr ok \<Rightarrow>
                    if ok
                    then Inr (matchedAs todo (updatedId updatedByName) False
                                (if todoType todo = ''style'' then ''style'' else ''modify'') ms)
                    else Inr (unmatched todo
                                (PropertiesDiffer (changedProperties updatedByName) expectedProps) ms))
           | None \<Rightarrow> Inr (unmatched todo r ms)))"

text \<open>The first half: the updated node with the target id, whoever else was matched to it.\<close>

definition matchModify ::
  "(string \<Rightarrow> string) \<Rightarrow> TodoItem \<Rightarrow> string option \<Rightarrow> string option \<Rightarrow> string list \<Rightarrow>
   (string \<times> string) list option \<Rightarrow> ExecutionReport \<Rightarrow> MatcherState \<Rightarrow> failure + MatcherState" where
  "matchModify lc todo name target expectedProps expectedVariant report ms =
     (case truthyValue target of
        None \<Rightarrow>
          matchModifyByName lc todo NoSatisfyingNode name expectedProps expectedVariant report ms
      | Some t \<Rightarrow>
          (case find (\<lambda>node. updatedId node = t) (updatedNodes report) of
             Some updatedTarget \<Rightarrow>
               (case checkProperties lc expectedProps expectedVariant updatedTarget of
                  Inl f \<Rightarrow> Inl f
                | Inr ok \<Rightarrow>
                    if ok
                    then Inr (matchedAs todo (updatedId updatedTarget) False
                                (if todoType todo = ''style'' then ''style'' else ''modify'') ms)
                    else matchModifyByName lc todo
                           (PropertiesDiffer (changedProperties updatedTarget) expectedProps)
                           name expectedProps expectedVariant report ms)
           | None \<Rightarrow>
               matchModifyByName lc todo TargetNotModified name expectedProps expectedVariant
                 report ms))"

text \<open>\<open>pickCreatedNode\<close>: a candidate under the expected parent first, else any free node of that name.\<close>

definition pickCreatedNode ::
  "(string \<Rightarrow> string) \<Rightarrow> string \<Rightarrow> string option \<Rightarrow> string set \<Rightarrow> CreatedNode list \<Rightarrow> CreatedNode option" where
  "pickCreatedNode lc nm expectedParentId assigned created =
     (case filter (\<lambda>node. nameMatches lc nm (createdName node)
                          \<and> createdId node \<notin> assigned
                          \<and> (case truthyValue expectedParentId of
                                None \<Rightarrow> True
                              | Some p \<Rightarrow> createdParentId node = Some p)) created of
        candidate # rest \<Rightarrow> Some candidate
      | [] \<Rightarrow> find (\<lambda>node. createdId node \<notin> assigned \<and> nameMatches lc nm (createdName node)) created)"

text \<open>
  The parent a created node is expected under: an existing node named by the design, or
  the node already matched to the parent TODO.
\<close>

definition expectedParentOf :: "TodoDesign option \<Rightarrow> MatcherState \<Rightarrow> string option" where
  "expectedParentOf designTodo ms =
     (case (case designTodo of None \<Rightarrow> None | Some d \<Rightarrow> parent d) of
        None \<Rightarrow> None
      | Some parentInfo \<Rightarrow>
          (case truthyValue (existingNodeId parentInfo) of
             Some e \<Rightarrow> Some e
           | None \<Rightarrow>
               (case truthyValue (parentTodoId parentInfo) of
                  Some pt \<Rightarrow> todoNodeMatches ms pt
                | None \<Rightarrow> None)))"

text \<open>
  \<open>default\<close>: every other type is treated as a creation.  The second \<open>if\<close> of the branch
  (\<open>!matched && targetNodeId\<close>): the created node with the target id, if it is still free.
\<close>

definition matchCreateById :: "TodoItem \<Rightarrow> reason \<Rightarrow> string option \<Rightarrow> ExecutionReport \<Rightarrow> MatcherState \<Rightarrow> MatcherState" where
  "matchCreateById todo r target report ms =
     (case truthyValue target of
        None \<Rightarrow> unmatched todo r ms
      | Some t \<Rightarrow>
          (case find (\<lambda>node. createdId node = t) (createdNodes report) of
             Some directMatch \<Rightarrow>
               if createdId directMatch \<notin> assignedNodeIds ms
               then matchedAs todo (createdId directMatch) True ''create'' ms
               else unmatched todo r ms
           | None \<Rightarrow> unmatched todo CreatedIdMismatch ms))"

text \<open>The first \<open>if\<close> of the branch: a free created node of the designed name.\<close>

definition matchCreate ::
  "(string \<Rightarrow> string) \<Rightarrow> TodoItem \<Rightarrow> TodoDesign option \<Rightarrow> string option \<Rightarrow> string option \<Rightarrow>
   ExecutionReport \<Rightarrow> MatcherState \<Rightarrow> MatcherState" where
  "matchCreate lc todo designTodo name target report ms =
     (case truthyValue name of
        None \<Rightarrow> matchCreateById todo NoSatisfyingNode target report ms
      | Some nm \<Rightarrow>
          (case pickCreatedNode lc nm (expectedParentOf designTodo ms) (assignedNodeIds ms)
                  (createdNodes report) of
             Some createdMatch \<Rightarrow> matchedAs todo (createdId createdMatch) True ''create'' ms
           | None \<Rightarrow> matchCreateById todo NamedNodeNotCreated target report ms))"

text \<open>
  \<open>todo.targetNodeId || todo.targetNode || designTodo?.targetNodeId || designTodo?.targetNode\<close>
\<close>

definition targetOf :: "TodoDesign option \<Rightarrow> TodoItem \<Rightarrow> string option" where
  "targetOf designTodo todo =
     or_else (targetNodeId todo)
       (or_else (targetNode todo)
          (case designTodo of
             None \<Rightarrow> None
           | Some d \<Rightarrow> or_else (designTargetNodeId d) (designTargetNode d)))"

text \<open>\<open>todo.expectedVariantProps || designTodo?.design?.expectedVariantProps\<close>\<close>

definition expectedVariantOf :: "TodoItem \<Rightarrow> TodoDesign option \<Rightarrow> (string \<times> string) list option" where
  "expectedVariantOf todo designTodo =
     (case expectedVariantProps todo of
        Some v \<Rightarrow> Some v
      | None \<Rightarrow> (case designTodo of
                   None \<Rightarrow> None
                 | Some d \<Rightarrow> designExpectedVariantProps d))"

text \<open>
  The body of \<open>for (const todo of planTodos)\<close>.  It is left by the \<open>TypeError\<close> of
  \<open>compareVariantProps\<close>; nothing in \<open>verifyExecution\<close> catches it.
\<close>

definition evaluateTodo ::
  "(string \<Rightarrow> string) \<Rightarrow> (string \<rightharpoonup> TodoDesign) \<Rightarrow> ExecutionReport \<Rightarrow> MatcherState \<Rightarrow> TodoItem \<Rightarrow>
   failure + MatcherState" where
  "evaluateTodo lc designs report ms todo =
     (let designTodo = designs (todoId todo);
          name = (case designTodo of
                    None \<Rightarrow> None
                  | Some d \<Rightarrow> map_option trim (nodeName d));
          target = targetOf designTodo todo;
          expectedProps = todoPropertyHints (todoType todo);
          expectedVariant = expectedVariantOf todo designTodo
      in if todoType todo = ''delete'' then Inr (matchDelete todo target report ms)
         else if todoType todo = ''modify'' \<or> todoType todo = ''style''
         then matchModify lc todo name target expectedProps expectedVariant report ms
         else Inr (matchCreate lc todo designTodo name target report ms))"

fun runTodos ::
  "(MatcherState \<Rightarrow> TodoItem \<Rightarrow> failure + MatcherState) \<Rightarrow> MatcherState \<Rightarrow> TodoItem list \<Rightarrow>
   failure + MatcherState" where
  "runTodos body ms [] = Inr ms"
| "runTodos body ms (todo # todos) =
     (case body ms todo of
        Inl f \<Rightarrow> Inl f
      | Inr ms' \<Rightarrow> runTodos body ms' todos)"

definition runMatcher ::
  "(string \<Rightarrow> string) \<Rightarrow> TodoItem list \<Rightarrow> TodoDesign list \<Rightarrow> ExecutionReport \<Rightarrow> failure + MatcherState" where
  "runMatcher lc planTodos designTodos report =
     runTodos (evaluateTodo lc (designTodoMap designTodos) report) emptyMatcherState planTodos"

text \<open>
  After the loop the entries of the execution result are built.  \<open>modifiedEntries\<close> calls
  \<open>compareVariantProps\<close> once more, for every updated node attributed to a modify or style
  TODO, with what the plan TODO of that id expects (\<open>planTodoMap\<close>: the last TODO with the
  id; an empty id is falsy and looks nothing up).  Only whether a call throws is kept; the
  entries go to \<open>state.executionResult\<close>, which no step reads.
\<close>

definition planTodoMap :: "TodoItem list \<Rightarrow> string \<rightharpoonup> TodoItem" where
  "planTodoMap planTodos = map_of (rev (map (\<lambda>t. (todoId t, t)) planTodos))"

definition variantMatch ::
  "(string \<Rightarrow> string) \<Rightarrow> (string \<rightharpoonup> TodoItem) \<Rightarrow> (string \<rightharpoonup> TodoDesign) \<Rightarrow> MatcherState \<Rightarrow> UpdatedNode \<Rightarrow>
   failure + bool option" where
  "variantMatch lc plans designs ms node =
     (case truthyValue (nodeIdToModifyTodo ms (updatedId node)) of
        None \<Rightarrow> Inr None
      | Some tid \<Rightarrow>
          (let expected = (case (case plans tid of
                                  None \<Rightarrow> None
                                | Some planTodo \<Rightarrow> expectedVariantProps planTodo) of
                             Some v \<Rightarrow> Some v
                           | None \<Rightarrow> (case designs tid of
                                        None \<Rightarrow> None
                                      | Some d \<Rightarrow> designExpectedVariantProps d))
           in case expected of
                None \<Rightarrow> Inr None
              | Some ex \<Rightarrow> compareVariantProps lc (variantProps node) (Some ex)))"

definition modifiedEntriesThrow ::
  "(string \<Rightarrow> string) \<Rightarrow> TodoItem list \<Rightarrow> TodoDesign list \<Rightarrow> ExecutionReport \<Rightarrow> MatcherState \<Rightarrow> bool" where
  "modifiedEntriesThrow lc planTodos designTodos report ms =
     list_ex (\<lambda>node. isl (variantMatch lc (planTodoMap planTodos) (designTodoMap designTodos) ms node))
       (updatedNodes report)"

section \<open>The steps of the orchestrator (FigmaCodeGenerateWorkflow)\<close>

definition cloneRequestedContext :: "RequestedContext \<Rightarrow> RequestedContext" where
  "cloneRequestedContext ctx =
     \<lparr> nodeIds = nodeIds ctx, assets = map (\<lambda>asset. asset) (assets ctx), questions = questions ctx \<rparr>"

definition hasPendingRequests :: "RequestedContext \<Rightarrow> bool" where
  "hasPendingRequests ctx = (nodeIds ctx \<noteq> [] \<or> assets ctx \<noteq> [] \<or> questions ctx \<noteq> [])"

definition clearRequestedContext :: "WorkflowState \<Rightarrow> WorkflowState" where
  "clearRequestedContext s = s \<lparr> requestedContext := Some EMPTY_REQUESTED_CONTEXT \<rparr>"

text \<open>\<open>state.thoughts.push(thought)\<close>\<close>

definition think :: "thought \<Rightarrow> WorkflowState \<Rightarrow> WorkflowState" where
  "think t s = s \<lparr> thoughts := thoughts s @ [t] \<rparr>"

text \<open>\<open>state.requestedContext ?? EMPTY_REQUESTED_CONTEXT\<close>\<close>

definition requestedOrEmpty :: "WorkflowState \<Rightarrow> RequestedContext" where
  "requestedOrEmpty s = (case requestedContext s of None \<Rightarrow> EMPTY_REQUESTED_CONTEXT | Some c \<Rightarrow> c)"

definition createInitialState :: "string \<Rightarrow> FigmaContext option \<Rightarrow> string option \<Rightarrow> WorkflowState" where
  "createInitialState prompt figma previousError =
     \<lparr> userPrompt = prompt, figmaContext = figma, plan = None, design = None, generation = None,
       blueprint = None, generatedCode = None, validationResult = None, previousErrors = [],
       currentStep = ''product-blueprint'', retryCount = 0, maxRetries = 3, partialRetry = False,
       stepHistory = [], lastStepCompleted = None,
       requestedContext = Some EMPTY_REQUESTED_CONTEXT,
       collectedContext = \<lparr> nodeDetails = Map.empty,
                            collectedAssets = \<lparr> execution_report = None, otherAssets = Map.empty \<rparr>,
                            answers = Map.empty \<rparr>,
       learning = map_option LearningText previousError,
       errorHistory = [], successPatterns = [], thoughts = [], messages = [],
       isComplete = False, error = None, runLog = [], executionReport = None \<rparr>"

text \<open>
  \<open>ensureStateDefaults\<close>.  The state type here has every defaulted field present, so only
  the requested context is touched: cloned, or the empty one when missing.
\<close>

definition ensureStateDefaults :: "WorkflowState \<Rightarrow> WorkflowState" where
  "ensureStateDefaults rawState =
     rawState \<lparr> requestedContext :=
                   Some (case requestedContext rawState of
                           Some c \<Rightarrow> cloneRequestedContext c
                         | None \<Rightarrow> EMPTY_REQUESTED_CONTEXT) \<rparr>"

definition applyContextUpdate :: "WorkflowState \<Rightarrow> ContextUpdatePayload \<Rightarrow> WorkflowState" where
  "applyContextUpdate s upd =
     (let c0 = collectedContext s;
          c1 = (case updNodeDetails upd of
                  None \<Rightarrow> c0
                | Some nd \<Rightarrow> c0 \<lparr> nodeDetails := nodeDetails c0 ++ nd \<rparr>);
          c2 = (case updAssets upd of
                  None \<Rightarrow> c1
                | Some a \<Rightarrow>
                    c1 \<lparr> collectedAssets :=
                           \<lparr> execution_report =
                               (case updExecutionReport a of
                                  None \<Rightarrow> execution_report (collectedAssets c1)
                                | Some r \<Rightarrow> r),
                             otherAssets = otherAssets (collectedAssets c1) ++ updOtherAssets a \<rparr> \<rparr>);
          c3 = (case updAnswers upd of
                  None \<Rightarrow> c2
                | Some an \<Rightarrow> c2 \<lparr> answers := answers c2 ++ an \<rparr>)
      in s \<lparr> collectedContext := c3 \<rparr>)"

definition appendRunLog :: "WorkflowState \<Rightarrow> string \<Rightarrow> summary \<Rightarrow> WorkflowState" where
  "appendRunLog s stp sm =
     s \<lparr> runLog := runLog s @ [\<lparr> logStep = stp, logSummary = sm,
                                  logRequestedContext = cloneRequestedContext (requestedOrEmpty s) \<rparr>] \<rparr>"

subsection \<open>product-blueprint\<close>

definition buildProductBlueprint :: "WorkflowState \<Rightarrow> WorkflowState" where
  "buildProductBlueprint s =
     (let s1 = think BlueprintStart s;
          selected = (case figmaContext s1 of None \<Rightarrow> [] | Some f \<Rightarrow> selectedNodes f);
          existing = map (\<lambda>node. \<lparr> screenId = ''existing_'' @ selectedId node,
                                   screenType = ''existing'',
                                   relatedNodeIds = [selectedId node] \<rparr>) selected;
          scr = (if existing = []
                 then [\<lparr> screenId = ''new_screen_1'', screenType = ''new'', relatedNodeIds = [] \<rparr>]
                 else existing);
          required = \<lparr> nodeIds = filter (\<lambda>i. i \<noteq> []) (concat (map relatedNodeIds scr)),
                       assets = [],
                       questions = (if filter (\<lambda>sc. screenType sc = ''new'') scr \<noteq> []
                                    then [question_goal, question_content] else []) \<rparr>;
          s2 = s1 \<lparr> blueprint := Some \<lparr> screens = scr, requiredContext = required \<rparr>,
                    requestedContext := Some (if hasPendingRequests required
                                              then cloneRequestedContext required
                                              else EMPTY_REQUESTED_CONTEXT) \<rparr>
      in (think BlueprintDone s2) \<lparr> currentStep := ''planning'' \<rparr>)"

subsection \<open>planning\<close>

definition planStrategy :: "StepEnv \<Rightarrow> WorkflowState \<Rightarrow> failure + WorkflowState" where
  "planStrategy env s =
     (let s1 = think (PlanStart (userPrompt s)) s
      in if promptThrows env then Inl PromptFailure
         else (case planningOutcome env of
                 Returned planningResult \<Rightarrow>
                   Inr (clearRequestedContext
                          ((think (PlanDone (strategy planningResult) (length (todoList planningResult)))
                              (s1 \<lparr> plan := Some planningResult \<rparr>))
                             \<lparr> currentStep := ''figma-design'' \<rparr>))
               | Threw m \<Rightarrow>
                   Inr (s1 \<lparr> error := Some (err_planning_failed @ m), currentStep := ''error'' \<rparr>)))"

subsection \<open>figma-design\<close>

definition designTodos :: "StepEnv \<Rightarrow> WorkflowState \<Rightarrow> WorkflowState" where
  "designTodos env s =
     (let s1 = think DesignStart s
      in if plan s1 = None
         then s1 \<lparr> error := Some err_no_plan, currentStep := ''error'' \<rparr>
         else (case designOutcome env of
                 Returned (d, response) \<Rightarrow>
                   clearRequestedContext
                     ((think (DesignDone (length (todoDesigns d))) (s1 \<lparr> design := Some d \<rparr>))
                        \<lparr> messages := messages s1 @ [response], currentStep := ''generate'' \<rparr>)
               | Threw m \<Rightarrow>
                   s1 \<lparr> error := Some (err_design_failed @ m), currentStep := ''error'' \<rparr>))"

subsection \<open>generate\<close>

definition implementationMap :: "TodoItem list \<Rightarrow> string \<rightharpoonup> TodoImplementation" where
  "implementationMap todos =
     map_of (rev (map (\<lambda>todo. (todoId todo,
                               \<lparr> implTodoId = todoId todo, codeLines = (0, 0), implemented = True \<rparr>))
                      todos))"

definition generateCode :: "StepEnv \<Rightarrow> WorkflowState \<Rightarrow> failure + WorkflowState" where
  "generateCode env s =
     (let s1 = think (GenerateStart (retryCount s) (maxRetries s)) s
      in case (plan s1, design s1) of
           (Some p, Some d) \<Rightarrow>
             (let s2 = (case truthyValue (learningSummary env) of
                          Some summaryText \<Rightarrow> think (LearningApplied summaryText) s1
                        | None \<Rightarrow> s1)
              in if promptThrows env then Inl PromptFailure
                 else (case generationOutcome env of
                         Returned figmaCode \<Rightarrow>
                           Inr (clearRequestedContext
                                  ((think (GenerateDone figmaCode (length (todoList p)))
                                      (s2 \<lparr> generation :=
                                               Some \<lparr> genCode = figmaCode,
                                                      todoImplementation = implementationMap (todoList p) \<rparr>,
                                             generatedCode := Some figmaCode \<rparr>))
                                     \<lparr> currentStep := ''validate'' \<rparr>))
                       | Threw m \<Rightarrow>
                           Inr (s2 \<lparr> error := Some (err_generation_failed @ m),
                                     currentStep := ''error'' \<rparr>)))
         | other \<Rightarrow> Inr (s1 \<lparr> error := Some err_no_plan_or_design, currentStep := ''error'' \<rparr>))"

subsection \<open>validate\<close>

text \<open>
  The matches of a literal pattern with the \<open>g\<close> flag: left to right, not overlapping.
  The counter is the number of characters still covered by the previous match.
\<close>

fun occurrences :: "nat \<Rightarrow> string \<Rightarrow> string \<Rightarrow> string list" where
  "occurrences k pat [] = []"
| "occurrences k pat (c # cs) =
     (if k = 0 \<and> pat \<noteq> [] \<and> startsWith (c # cs) pat
      then pat # occurrences (length pat - 1) pat cs
      else occurrences (k - 1) pat cs)"

definition validApiPatterns :: "string list" where
  "validApiPatterns =
     [''figma.createFrame'', ''figma.createText'', ''figma.createRectangle'',
      ''figma.createComponent'', ''figma.createInstance'', ''figma.getNodeById'',
      ''figma.currentPage'']"

definition invalidApiPatterns :: "string list" where
  "invalidApiPatterns = [''figma.deleteNode'', ''node.remove()'']"

definition validCalls :: "string \<Rightarrow> string list" where
  "validCalls code = concat (map (\<lambda>pat. occurrences 0 pat code) validApiPatterns)"

definition invalidCalls :: "string \<Rightarrow> string list" where
  "invalidCalls code = concat (map (\<lambda>pat. occurrences 0 pat code) invalidApiPatterns)"

fun joinWith :: "string \<Rightarrow> string list \<Rightarrow> string" where
  "joinWith sep [] = []"
| "joinWith sep [x] = x"
| "joinWith sep (x # y # ys) = x @ sep @ joinWith sep (y # ys)"

text \<open>\<open>isValid\<close> of the validator path.\<close>

definition codeIsValid :: "TsValidation \<Rightarrow> string \<Rightarrow> bool" where
  "codeIsValid tsValidation code =
     (success tsValidation \<and> validCalls code \<noteq> [] \<and> invalidCalls code = [])"

text \<open>The \<open>errors\<close> of the fallback check in the \<open>catch\<close> of \<open>validateCode\<close>.\<close>

definition fallbackErrors :: "string \<Rightarrow> string list" where
  "fallbackErrors code =
     (if \<not> str_includes code ''figma.'' then [err_no_figma_call] else [])
     @ (if str_includes code ''await'' \<and> \<not> str_includes code ''async''
        then [err_await_outside_async] else [])"

definition recordValidationError :: "WorkflowState \<Rightarrow> TsValidation \<Rightarrow> string \<Rightarrow> WorkflowState" where
  "recordValidationError s tsValidation code =
     s \<lparr> previousErrors := previousErrors s
            @ [\<lparr> prevCode = code, prevError = joinWith '', '' (map message (errors tsValidation)) \<rparr>] \<rparr>"

text \<open>
  \<open>validateTodoImplementation\<close> builds \<open>new RegExp(`TODO_${todo.id.split("_")[1]}`, "g")\<close> for
  every TODO of the plan (\<open>state.plan?.todoList || []\<close>); a missing second piece is
  interpolated as \<open>undefined\<close>.  With ids that are strings, as their type has them, it is the
  one call of the \<open>try\<close> body before the verdict that can throw, and it precedes every
  write to the state.
\<close>

definition todoPattern :: "string \<Rightarrow> string" where
  "todoPattern i =
     ''TODO_'' @ (case splitBy CHR ''_'' i of
                    first # second # pieces \<Rightarrow> second
                  | other \<Rightarrow> ''undefined'')"

definition todoValidationThrows :: "StepEnv \<Rightarrow> WorkflowState \<Rightarrow> bool" where
  "todoValidationThrows env s =
     list_ex (\<lambda>todo. regexRejects env (todoPattern (todoId todo)))
       (case plan s of None \<Rightarrow> [] | Some p \<Rightarrow> todoList p)"

text \<open>The \<open>catch\<close> of \<open>validateCode\<close>: the fallback check, on the state as the \<open>try\<close> left it.\<close>

definition validateFallback :: "string \<Rightarrow> WorkflowState \<Rightarrow> WorkflowState" where
  "validateFallback code s =
     (let s2 = think ValidateFallback s;
          errs = fallbackErrors code;
          s3 = s2 \<lparr> validationResult := Some \<lparr> isValid = (errs = []) \<rparr> \<rparr>
      in if errs = []
         then s3 \<lparr> currentStep := ''execute'' \<rparr>
         else (let s4 = s3 \<lparr> retryCount := retryCount s3 + 1 \<rparr>
               in if retryCount s4 < maxRetries s4
                  then s4 \<lparr> learning := Some (BasicValidationFailed errs),
                            currentStep := ''generate'' \<rparr>
                  else s4 \<lparr> error := Some (err_validation_failed @ joinWith '', '' errs),
                            currentStep := ''error'' \<rparr>))"

text \<open>
  The \<open>try\<close> body after \<open>validateTodoImplementation\<close>: it stores the verdict, and on the two
  branches that announce a thought the callback can throw, after the thought was pushed.
  (\<open>state.validation\<close>, the detailed report written next to \<open>validationResult\<close>, is read by
  no step and is not kept.)
\<close>

definition validateCode :: "StepEnv \<Rightarrow> WorkflowState \<Rightarrow> WorkflowState" where
  "validateCode env s =
     (let s1 = clearRequestedContext (think ValidateStart s)
      in case (truthyValue (generatedCode s1), generation s1) of
           (Some code, Some gen) \<Rightarrow>
             if todoValidationThrows env s1 then validateFallback code s1
             else
               (let tsValidation = validateFigmaCode (validatorInput env);
                    valid = codeIsValid tsValidation code;
                    s2 = s1 \<lparr> validationResult := Some \<lparr> isValid = valid \<rparr> \<rparr>
                in if valid
                   then (if thoughtCallbackThrows env
                         then validateFallback code (think ValidateOk s2)
                         else (think ValidateOk s2) \<lparr> currentStep := ''execute'' \<rparr>)
                   else if retryCount s2 < maxRetries s2
                   then (if thoughtCallbackThrows env
                         then validateFallback code (think ValidateRetry s2)
                         else (recordValidationError (think ValidateRetry s2) tsValidation code)
                                \<lparr> retryCount := retryCount s2 + 1,
                                  learning := Some (learningContext tsValidation),
                                  currentStep := ''generate'' \<rparr>)
                   else s2 \<lparr> error := Some (err_validation_failed
                                  @ joinWith [CHR 0x0A]
                                      (map (\<lambda>e. ''- '' @ message e) (errors tsValidation))),
                             currentStep := ''error'' \<rparr>)
         | other \<Rightarrow> s1 \<lparr> error := Some err_no_generated_code, currentStep := ''generate'' \<rparr>)"

subsection \<open>execute\<close>

definition executeCode :: "WorkflowState \<Rightarrow> WorkflowState" where
  "executeCode s =
     (let s1 = think ExecuteStart s
      in if \<not> truthy (generatedCode s1)
         then s1 \<lparr> error := Some err_no_code_to_run, currentStep := ''error'' \<rparr>
         else (think ExecuteHandOff
                 (s1 \<lparr> executionReport := None,
                       requestedContext :=
                         Some \<lparr> nodeIds = [],
                                assets = [\<lparr> assetType = ''execution_report'', assetId = None,
                                            assetDescription = desc_last_execution \<rparr>],
                                questions = [] \<rparr> \<rparr>))
                \<lparr> currentStep := ''verify'', isComplete := False \<rparr>)"

subsection \<open>handleError\<close>

text \<open>\<open>learningTemplates[errorType] || learningTemplates.unknown\<close>: the template that is rendered.\<close>

definition learningTemplateKey :: "string \<Rightarrow> string" where
  "learningTemplateKey t =
     (if t \<in> set [''planning'', ''design'', ''generation'', ''validation'', ''execution'', ''unknown'']
      then t else ''unknown'')"

definition generateLearningContext :: "string \<Rightarrow> string \<Rightarrow> learning" where
  "generateLearningContext t e = RecoveryTemplate (learningTemplateKey t) e"

definition orEmpty :: "string option \<Rightarrow> string" where
  "orEmpty v = (case truthyValue v of None \<Rightarrow> [] | Some x \<Rightarrow> x)"

definition handleError :: "WorkflowState \<Rightarrow> WorkflowState" where
  "handleError s =
     (let s1 = clearRequestedContext (think RecoveryStart s);
          errKind = categorizeError (orEmpty (error s1));
          s2 = s1 \<lparr> errorHistory := errorHistory s1
                      @ [\<lparr> errCode = orEmpty (generatedCode s1),
                           errorMessage = orEmpty (error s1),
                           errorType = errKind \<rparr>] \<rparr>;
          errorPattern = analyzeErrorPattern (errorHistory s2);
          recoveryStrategy = determineRecoveryStrategy errKind (retryCount s2) errorPattern
      in if recoveryStrategy = ''retry_with_learning'' \<and> retryCount s2 < maxRetries s2
         then (think (RecoveryRetry (retryCount s2 + 1) (maxRetries s2))
                 (s2 \<lparr> learning := Some (generateLearningContext errKind (orEmpty (error s2))),
                       successPatterns := successPatterns s2 @ [''Avoid: '' @ errKind] \<rparr>))
                \<lparr> retryCount := retryCount s2 + 1,
                  error := None,
                  currentStep :=
                    (if errKind = ''planning'' \<or> errKind = ''figma-design'' then ''planning''
                     else if errKind = ''generation'' \<or> errKind = ''validation'' then ''generate''
                     else ''planning'') \<rparr>
         else if (recoveryStrategy = ''retry_with_learning'' \<or> recoveryStrategy = ''partial_recovery'')
                 \<and> plan s2 \<noteq> None \<and> generation s2 \<noteq> None
         then (think RecoveryPartial s2) \<lparr> partialRetry := True, currentStep := ''verify'' \<rparr>
         else (think (RecoveryAbort (error s2)) s2)
                \<lparr> currentStep := ''__end__'', isComplete := True \<rparr>)"

subsection \<open>verify\<close>

definition missingTodo :: "Evaluation \<Rightarrow> MissingTodo" where
  "missingTodo ev = \<lparr> missingId = todoId (evTodo ev), missingTask = task (evTodo ev),
                      missingType = todoType (evTodo ev), missingReason = evReason ev \<rparr>"

text \<open>
  \<open>completionRate = (completedCount / totalTodos) * 100\<close> is computed in floating point.  The
  test \<open>completionRate < 80\<close> has the same outcome on the exact quotient for every list
  length a JavaScript array can have: the quotient differs from 4/5 by at least 1/(5 * 2^32)
  unless it equals it, far more than the rounding error, and 0.8 * 100 rounds to exactly 80.
\<close>

definition completedCount :: "Evaluation list \<Rightarrow> nat" where
  "completedCount evs = length (remdups (map (\<lambda>ev. todoId (evTodo ev)) (filter matched evs)))"

definition totalTodos :: "TodoItem list \<Rightarrow> TodoDesign list \<Rightarrow> nat" where
  "totalTodos planTodos designs =
     (if length planTodos \<noteq> 0 then length planTodos
      else if length designs \<noteq> 0 then length designs
      else 1)"

definition completionRate :: "Evaluation list \<Rightarrow> TodoItem list \<Rightarrow> TodoDesign list \<Rightarrow> rat" where
  "completionRate evs planTodos designs =
     (of_nat (completedCount evs) / of_nat (totalTodos planTodos designs)) * 100"

definition missingEvaluations :: "Evaluation list \<Rightarrow> Evaluation list" where
  "missingEvaluations evs = filter (\<lambda>ev. \<not> matched ev) evs"

definition reportRequest :: "string \<Rightarrow> RequestedContext" where
  "reportRequest description =
     \<lparr> nodeIds = [],
       assets = [\<lparr> assetType = ''execution_report'', assetId = None,
                   assetDescription = description \<rparr>],
       questions = [] \<rparr>"

text \<open>\<open>state.design?.todoDesigns || []\<close>\<close>

definition stateDesigns :: "WorkflowState \<Rightarrow> TodoDesign list" where
  "stateDesigns s = (case design s of None \<Rightarrow> [] | Some d \<Rightarrow> todoDesigns d)"

text \<open>
  The evaluations of the matcher's loop on the state's plan and designs, when neither the
  loop nor the building of \<open>modifiedEntries\<close> throws.
\<close>

definition stateEvaluations ::
  "(string \<Rightarrow> string) \<Rightarrow> WorkflowState \<Rightarrow> PlanningResult \<Rightarrow> ExecutionReport \<Rightarrow> failure + Evaluation list" where
  "stateEvaluations lc s p report =
     (case runMatcher lc (todoList p) (stateDesigns s) report of
        Inl f \<Rightarrow> Inl f
      | Inr ms \<Rightarrow>
          if modifiedEntriesThrow lc (todoList p) (stateDesigns s) report ms then Inl TypeFailure
          else Inr (evaluations ms))"

text \<open>What \<open>verifyExecution\<close> does with the evaluations: the thoughts, the payload, the decision.\<close>

definition concludeVerification ::
  "PlanningResult \<Rightarrow> ExecutionReport \<Rightarrow> Evaluation list \<Rightarrow> WorkflowState \<Rightarrow> WorkflowState" where
  "concludeVerification p report evs s2 =
     (let planTodos = todoList p;
          designs = stateDesigns s2;
          s3 = think (VerifyDone (completedCount evs) (totalTodos planTodos designs)
                        (length (createdNodeIds report))) s2;
          missing = missingEvaluations evs;
          s4 = (if missing \<noteq> []
                then (let learningPayload =
                            MissingTodosPayload (learning s3) (map missingTodo missing);
                          s3a = (think (VerifyMissing (map missingTodo missing)) s3)
                                  \<lparr> learning := Some learningPayload \<rparr>
                      in s3a \<lparr> runLog := runLog s3a
                               @ [\<lparr> logStep = ''verify:missing'',
                                    logSummary = PayloadSummary learningPayload,
                                    logRequestedContext =
                                      cloneRequestedContext (requestedOrEmpty s3a) \<rparr>] \<rparr>)
                else s3)
      in if completionRate evs planTodos designs < 80 \<and> retryCount s4 < 1
         then (think VerifyRetry
                 (s4 \<lparr> partialRetry := True, retryCount := retryCount s4 + 1 \<rparr>))
                \<lparr> currentStep := ''generate'' \<rparr>
         else s4 \<lparr> currentStep := ''complete'', isComplete := True \<rparr>)"

definition verifyExecution :: "(string \<Rightarrow> string) \<Rightarrow> WorkflowState \<Rightarrow> failure + WorkflowState" where
  "verifyExecution lc s =
     (let s1 = think VerifyStart s
      in case execution_report (collectedAssets (collectedContext s1)) of
           None \<Rightarrow> Inr (s1 \<lparr> requestedContext := Some (reportRequest desc_recent_execution) \<rparr>)
         | Some report \<Rightarrow>
             (let s2 = clearRequestedContext (s1 \<lparr> executionReport := Some report \<rparr>)
              in case plan s2 of
                   None \<Rightarrow> Inr (s2 \<lparr> currentStep := ''complete'', isComplete := True \<rparr>)
                 | Some p \<Rightarrow>
                     (case stateEvaluations lc s2 p report of
                        Inl f \<Rightarrow> Inl f
                      | Inr evs \<Rightarrow> Inr (concludeVerification p report evs s2))))"

section \<open>executeStep\<close>

text \<open>\<open>state.thoughts[state.thoughts.length - 1] || `${step} ...`\<close>: an empty text is falsy.\<close>

definition stepSummary :: "WorkflowState \<Rightarrow> string \<Rightarrow> summary" where
  "stepSummary s stp =
     (if thoughts s = [] then StepDone stp
      else if last (thoughts s) = Said [] then StepDone stp
      else ThoughtSummary (last (thoughts s)))"

definition stepNames :: "string list" where
  "stepNames = [''product-blueprint'', ''planning'', ''figma-design'', ''generate'', ''validate'',
                ''execute'', ''verify'', ''handleError'', ''complete'']"

text \<open>The \<open>switch\<close> of \<open>executeStep\<close>.\<close>

definition dispatch :: "StepEnv \<Rightarrow> string \<Rightarrow> WorkflowState \<Rightarrow> failure + WorkflowState" where
  "dispatch env stp s =
     (if stp = ''product-blueprint'' then Inr (buildProductBlueprint s)
      else if stp = ''planning'' then planStrategy env s
      else if stp = ''figma-design'' then Inr (designTodos env s)
      else if stp = ''generate'' then generateCode env s
      else if stp = ''validate'' then Inr (validateCode env s)
      else if stp = ''execute'' then Inr (executeCode s)
      else if stp = ''verify'' then verifyExecution (toLowerCase env) s
      else if stp = ''handleError'' then Inr (handleError s)
      else if stp = ''complete'' then Inr (s \<lparr> isComplete := True \<rparr>)
      else Inr (s \<lparr> error := Some (err_unknown_step @ stp), isComplete := True,
                    currentStep := ''complete'' \<rparr>))"

definition finishStep :: "string \<Rightarrow> WorkflowState \<Rightarrow> StepResult" where
  "finishStep stp s =
     (let s1 = s \<lparr> stepHistory := stepHistory s @ [stp], lastStepCompleted := Some stp \<rparr>;
          next = currentStep s1;
          s2 = appendRunLog s1 stp (stepSummary s1 stp)
      in \<lparr> resultState = s2, completed = isComplete s2, step = stp, nextStep = next,
           resultRequestedContext = cloneRequestedContext (requestedOrEmpty s2) \<rparr>)"

definition startStep :: "StepEnv \<Rightarrow> WorkflowState \<Rightarrow> WorkflowState" where
  "startStep env rawState =
     (let s = ensureStateDefaults rawState
      in case contextUpdate env of
           None \<Rightarrow> s
         | Some upd \<Rightarrow> applyContextUpdate s upd)"

text \<open>\<open>state.currentStep || "product-blueprint"\<close>\<close>

definition stepOf :: "WorkflowState \<Rightarrow> string" where
  "stepOf s = (if currentStep s = [] then ''product-blueprint'' else currentStep s)"

definition executeStep :: "StepEnv \<Rightarrow> WorkflowState \<Rightarrow> failure + StepResult" where
  "executeStep env rawState =
     (let s = startStep env rawState;
          stp = stepOf s
      in case dispatch env stp s of
           Inl f \<Rightarrow> Inl f
         | Inr s' \<Rightarrow> Inr (finishStep stp s'))"

text \<open>Repeated calls, each on the state the previous one returned.\<close>

fun runSteps :: "WorkflowState \<Rightarrow> StepEnv list \<Rightarrow> failure + WorkflowState" where
  "runSteps s [] = Inr s"
| "runSteps s (env # envs) =
     (case executeStep env s of
        Inl f \<Rightarrow> Inl f
      | Inr r \<Rightarrow> runSteps (resultState r) envs)"


section \<open>applyCodeGuards\<close>

text \<open>
  The token rewriting uses, for each constant, the regular expression
  \<open>const\s+NAME\s*=\s*"([^"]+)"\<close> with the \<open>g\<close> flag.  Matching it at the start of a text is
  deterministic (no choice point of the pattern can be resolved in two ways), so it is a
  function: the text that follows the match, if the text starts with one.
\<close>

definition matchLiteral :: "string \<Rightarrow> string \<Rightarrow> string option" where
  "matchLiteral lit s = (if startsWith s lit then Some (drop (length lit) s) else None)"

text \<open>\<open>\s+\<close>\<close>

definition matchSpaces1 :: "string \<Rightarrow> string option" where
  "matchSpaces1 s = (case dropToken ws_tokens s of None \<Rightarrow> None | Some r \<Rightarrow> Some (trimStart r))"

text \<open>\<open>([^"]+)"\<close>\<close>

definition matchQuoted :: "string \<Rightarrow> string option" where
  "matchQuoted s =
     (let inner = takeWhile (\<lambda>c. c \<noteq> CHR 0x22) s;
          rest = dropWhile (\<lambda>c. c \<noteq> CHR 0x22) s
      in if inner \<noteq> [] \<and> rest \<noteq> [] then Some (tl rest) else None)"

definition matchDeclaration :: "string \<Rightarrow> string \<Rightarrow> string option" where
  "matchDeclaration name s =
     (case matchLiteral ''const'' s of
        None \<Rightarrow> None
      | Some r1 \<Rightarrow>
          (case matchSpaces1 r1 of
             None \<Rightarrow> None
           | Some r2 \<Rightarrow>
               (case matchLiteral name r2 of
                  None \<Rightarrow> None
                | Some r3 \<Rightarrow>
                    (case matchLiteral ''='' (trimStart r3) of
                       None \<Rightarrow> None
                     | Some r4 \<Rightarrow>
                         (case matchLiteral [CHR 0x22] (trimStart r4) of
                            None \<Rightarrow> None
                          | Some r5 \<Rightarrow> matchQuoted r5)))))"

text \<open>
  \<open>patched.replace(regex, `const ${name} = "${value}"`)\<close>: the text is scanned from the left;
  a match is replaced and the scan goes on behind it.  The counter is the number of
  characters still covered by the match just replaced.
\<close>

fun replaceDeclarations :: "nat \<Rightarrow> string \<Rightarrow> string \<Rightarrow> string \<Rightarrow> string" where
  "replaceDeclarations k name v [] = []"
| "replaceDeclarations k name v (c # cs) =
     (if k > 0 then replaceDeclarations (k - 1) name v cs
      else (case matchDeclaration name (c # cs) of
              Some rest \<Rightarrow>
                (''const '' @ name @ '' = '' @ [CHR 0x22] @ v @ [CHR 0x22])
                @ replaceDeclarations (length cs - length rest) name v cs
            | None \<Rightarrow> c # replaceDeclarations 0 name v cs))"

definition tokenConstants :: "(string \<times> string) list" where
  "tokenConstants =
     [(''THEME_COLLECTION_KEY'', ''39e0c2b9cd40942595f053c590c74e1123f4e317''),
      (''RADIUS_COLLECTION_KEY'', ''8e172dafc41cff80fc32c6ef5b2519ea51091ff7''),
      (''PRIMITIVE_COLLECTION_KEY'', ''d6673925cad31c3f25349c1469ca4288495979e2'')]"

text \<open>
  \<open>applyCodeGuards\<close>.  The first argument is the rewriting done when the script contains
  \<open>.insertChild(\<close> (the calls turned into \<open>safeInsertChild\<close>, the helper prepended, nested
  helper declarations removed); it is a parameter here.
\<close>

definition applyCodeGuards :: "(string \<Rightarrow> string) \<Rightarrow> string \<Rightarrow> string" where
  "applyCodeGuards insertChildGuard code =
     (if code = [] then code
      else (let hasInsertChild = str_includes code ''.insertChild('';
                patched = (if hasInsertChild then insertChildGuard code else code)
            in foldl (\<lambda>p tc. replaceDeclarations 0 (fst tc) (snd tc) p) patched tokenConstants))"

text \<open>A text has a declaration of \<open>name\<close> when the pattern matches somewhere in it.\<close>

fun hasDeclaration :: "string \<Rightarrow> string \<Rightarrow> bool" where
  "hasDeclaration name [] = False"
| "hasDeclaration name (c # cs) = (matchDeclaration name (c # cs) \<noteq> None \<or> hasDeclaration name cs)"


section \<open>Notions used in the statements\<close>

subsection \<open>Validator\<close>

text \<open>The object literals of a tree, in the order \<open>visit\<close> meets them: line, text, properties.\<close>

fun objectLiterals :: "ts_node \<Rightarrow> (nat \<times> string \<times> ts_property list) list"
  and objectLiterals_nodes :: "ts_node list \<Rightarrow> (nat \<times> string \<times> ts_property list) list"
  and objectLiterals_property :: "ts_property \<Rightarrow> (nat \<times> string \<times> ts_property list) list"
  and objectLiterals_properties :: "ts_property list \<Rightarrow> (nat \<times> string \<times> ts_property list) list" where
  "objectLiterals (ObjectLiteralExpression lno txt ps) = (lno, txt, ps) # objectLiterals_properties ps"
| "objectLiterals (PropertyAccessExpression lno txt e n) = objectLiterals e"
| "objectLiterals (Identifier n) = []"
| "objectLiterals (NumericLiteral v shown) = []"
| "objectLiterals (OtherNode ns) = objectLiterals_nodes ns"
| "objectLiterals_nodes [] = []"
| "objectLiterals_nodes (n # ns) = objectLiterals n @ objectLiterals_nodes ns"
| "objectLiterals_property (PropertyAssignment k v) = objectLiterals k @ objectLiterals v"
| "objectLiterals_property (OtherElement ns) = objectLiterals_nodes ns"
| "objectLiterals_properties [] = []"
| "objectLiterals_properties (p # ps) = objectLiterals_property p @ objectLiterals_properties ps"

definition colorErrorOf :: "nat \<times> string \<times> ts_property list \<Rightarrow> ValidationError option" where
  "colorErrorOf l = (case l of (lno, txt, ps) \<Rightarrow> validateColorFormat lno txt ps)"

text \<open>The object literals that \<open>validateColorFormat\<close> flags.\<close>

definition flagged :: "ts_node \<Rightarrow> (nat \<times> string \<times> ts_property list) list" where
  "flagged sf = filter (\<lambda>l. colorErrorOf l \<noteq> None) (objectLiterals sf)"

definition isColorError :: "ValidationError \<Rightarrow> bool" where
  "isColorError e = (errType e = COLOR_FORMAT)"

text \<open>The properties of the object literal \<open>{r:1,g:0,b:0,a:0.5}\<close>.\<close>

definition rgbaLiteral :: "ts_property list" where
  "rgbaLiteral =
     [PropertyAssignment (Identifier ''r'') (NumericLiteral 1 ''1''),
      PropertyAssignment (Identifier ''g'') (NumericLiteral 0 ''0''),
      PropertyAssignment (Identifier ''b'') (NumericLiteral 0 ''0''),
      PropertyAssignment (Identifier ''a'') (NumericLiteral (1 / 2) ''0.5'')]"

text \<open>A script with the literal once, and one with the literal twice (an array of two colours).\<close>

definition oneLiteral :: ValidatorInput where
  "oneLiteral =
     \<lparr> sourceFile = Returned (OtherNode
         [ObjectLiteralExpression 1 ''{r:1,g:0,b:0,a:0.5}'' rgbaLiteral]),
       semanticDiagnostics = [], layoutPatternMatches = [] \<rparr>"

definition twoLiterals :: ValidatorInput where
  "twoLiterals =
     \<lparr> sourceFile = Returned (OtherNode
         [ObjectLiteralExpression 1 ''{r:1,g:0,b:0,a:0.5}'' rgbaLiteral,
          ObjectLiteralExpression 2 ''{r:1,g:0,b:0,a:0.5}'' rgbaLiteral]),
       semanticDiagnostics = [], layoutPatternMatches = [] \<rparr>"

subsection \<open>Error recovery\<close>

definition errorOfType :: "string \<Rightarrow> ErrorRecord" where
  "errorOfType t = \<lparr> errCode = [], errorMessage = [], errorType = t \<rparr>"

definition fiveMixed :: "ErrorRecord list" where
  "fiveMixed = map errorOfType [''planning'', ''generation'', ''validation'', ''execution'', ''unknown'']"

definition sixMixed :: "ErrorRecord list" where
  "sixMixed = map errorOfType
     [''planning'', ''generation'', ''validation'', ''execution'', ''unknown'', ''planning'']"

subsection \<open>applyCodeGuards\<close>

definition sampleScript :: string where
  "sampleScript = ''const frame = figma.createFrame();''"

subsection \<open>Verification Matcher\<close>

text \<open>
  A TODO handled by the \<open>default\<close> branch of the matcher (a creation): its type is none of
  \<open>delete\<close>, \<open>modify\<close>, \<open>style\<close>.  \<open>createMatches\<close> are the evaluations of such TODOs that
  matched.  \<open>deleteMatchOk\<close>: a matched \<open>delete\<close> TODO has a target id, the id is among the
  report's \<open>deletedNodeIds\<close>, and it is the node the TODO is matched to.
  \<open>modifyMatchOk\<close>: a matched \<open>modify\<close> or \<open>style\<close> TODO is matched to an updated node of the
  report that passed the TODO's \<open>checkProperties\<close>.  \<open>namesTarget\<close>: the node an evaluation is
  matched to is the target id of its TODO.  \<open>sharedOnlyByTarget\<close>: whenever two \<open>modify\<close> or
  \<open>style\<close> TODOs are matched to the same node, the later one names that node as its target.
  \<open>matchOutcome\<close> and \<open>matcherInv\<close> serve the proof: what one turn of the loop can do, and
  what stays true of the bookkeeping.
\<close>

definition isCreateTodo :: "TodoItem \<Rightarrow> bool" where
  "isCreateTodo t = (todoType t \<noteq> ''delete'' \<and> todoType t \<noteq> ''modify'' \<and> todoType t \<noteq> ''style'')"

definition isModifyTodo :: "TodoItem \<Rightarrow> bool" where
  "isModifyTodo t = (todoType t = ''modify'' \<or> todoType t = ''style'')"

definition createMatches :: "Evaluation list \<Rightarrow> Evaluation list" where
  "createMatches evs = filter (\<lambda>e. matched e \<and> isCreateTodo (evTodo e)) evs"

definition deleteMatchOk :: "(string \<rightharpoonup> TodoDesign) \<Rightarrow> ExecutionReport \<Rightarrow> Evaluation \<Rightarrow> bool" where
  "deleteMatchOk designs report e =
     (todoType (evTodo e) = ''delete'' \<and> matched e \<longrightarrow>
        (\<exists>t. truthyValue (targetOf (designs (todoId (evTodo e))) (evTodo e)) = Some t
            \<and> t \<in> set (deletedNodeIds report)
            \<and> matchedNodeId e = Some t))"

definition passesCheck ::
  "(string \<Rightarrow> string) \<Rightarrow> (string \<rightharpoonup> TodoDesign) \<Rightarrow> ExecutionReport \<Rightarrow> TodoItem \<Rightarrow> string \<Rightarrow> bool" where
  "passesCheck lc designs report todo nodeId =
     list_ex (\<lambda>node. updatedId node = nodeId
                     \<and> checkProperties lc (todoPropertyHints (todoType todo))
                           (expectedVariantOf todo (designs (todoId todo))) node = Inr True)
       (updatedNodes report)"

definition modifyMatchOk ::
  "(string \<Rightarrow> string) \<Rightarrow> (string \<rightharpoonup> TodoDesign) \<Rightarrow> ExecutionReport \<Rightarrow> Evaluation \<Rightarrow> bool" where
  "modifyMatchOk lc designs report e =
     (isModifyTodo (evTodo e) \<and> matched e \<longrightarrow>
        (case matchedNodeId e of
           None \<Rightarrow> False
         | Some nodeId \<Rightarrow> passesCheck lc designs report (evTodo e) nodeId))"

definition namesTarget :: "(string \<rightharpoonup> TodoDesign) \<Rightarrow> Evaluation \<Rightarrow> bool" where
  "namesTarget designs e =
     (truthyValue (targetOf (designs (todoId (evTodo e))) (evTodo e)) = matchedNodeId e)"

definition modifyMatch :: "Evaluation \<Rightarrow> bool" where
  "modifyMatch e = (matched e \<and> isModifyTodo (evTodo e))"

definition sharedOnlyByTarget :: "(string \<rightharpoonup> TodoDesign) \<Rightarrow> Evaluation list \<Rightarrow> bool" where
  "sharedOnlyByTarget designs evs =
     (\<forall>j < length evs. \<forall>i < j.
        modifyMatch (evs ! i) \<and> modifyMatch (evs ! j)
          \<and> matchedNodeId (evs ! i) = matchedNodeId (evs ! j)
        \<longrightarrow> namesTarget designs (evs ! j))"

definition matchOutcome ::
  "TodoItem \<Rightarrow> bool \<Rightarrow> (string \<Rightarrow> string \<Rightarrow> bool) \<Rightarrow> MatcherState \<Rightarrow> MatcherState \<Rightarrow> bool" where
  "matchOutcome todo lock ok ms ms' =
     ((\<exists>r. ms' = unmatched todo r ms)
      \<or> (\<exists>nodeId mt. ms' = matchedAs todo nodeId lock mt ms \<and> ok nodeId mt))"

definition matcherInv ::
  "(string \<Rightarrow> string) \<Rightarrow> (string \<rightharpoonup> TodoDesign) \<Rightarrow> ExecutionReport \<Rightarrow> MatcherState \<Rightarrow> bool" where
  "matcherInv lc designs report ms =
     (distinct (map matchedNodeId (createMatches (evaluations ms)))
      \<and> set (map matchedNodeId (createMatches (evaluations ms))) \<subseteq> Some ` assignedNodeIds ms
      \<and> (\<forall>e \<in> set (evaluations ms). deleteMatchOk designs report e)
      \<and> (\<forall>e \<in> set (evaluations ms). modifyMatchOk lc designs report e)
      \<and> (\<forall>e \<in> set (evaluations ms). modifyMatch e \<longrightarrow>
             (\<exists>n. matchedNodeId e = Some n \<and> nodeIdToModifyTodo ms n \<noteq> None))
      \<and> sharedOnlyByTarget designs (evaluations ms))"

subsection \<open>Example plans and reports\<close>

definition plainTodo :: "string \<Rightarrow> string \<Rightarrow> string option \<Rightarrow> TodoItem" where
  "plainTodo i t target =
     \<lparr> todoId = i, task = ''task '' @ i, todoType = t, targetNode = None, targetNodeId = target,
       scenarioId = None, expectedVariantProps = None \<rparr>"

definition namedDesign :: "string \<Rightarrow> string \<Rightarrow> TodoDesign" where
  "namedDesign i n =
     \<lparr> designTodoId = i, designTargetNode = None, designTargetNodeId = None,
       designScenarioId = None, nodeName = Some n, parent = None,
       designExpectedVariantProps = None \<rparr>"

definition exampleTodos :: "TodoItem list" where
  "exampleTodos = [plainTodo ''todo_1'' ''create'' None, plainTodo ''todo_2'' ''create'' None,
                   plainTodo ''todo_3'' ''delete'' (Some ''d1''),
                   plainTodo ''todo_4'' ''style'' (Some ''n1''),
                   plainTodo ''todo_5'' ''modify'' (Some ''n1'')]"

definition exampleDesigns :: "TodoDesign list" where
  "exampleDesigns = [namedDesign ''todo_1'' ''Button'', namedDesign ''todo_2'' '' button '']"

definition exampleReport :: ExecutionReport where
  "exampleReport =
     \<lparr> createdNodes = [\<lparr> createdId = ''c1'', createdName = ''Button'', createdParentId = None \<rparr>,
                       \<lparr> createdId = ''c2'', createdName = ''Submit button'', createdParentId = None \<rparr>],
       updatedNodes = [\<lparr> updatedId = ''n1'', updatedName = ''Title'',
                         changedProperties = [''fills'', ''layout''], variantProps = None \<rparr>],
       deletedNodeIds = [''d1''], createdNodeIds = [''c1'', ''c2''],
       reportError = None \<rparr>"

definition styleTodos :: "TodoItem list" where
  "styleTodos = [plainTodo ''todo_1'' ''style'' (Some ''n1''), plainTodo ''todo_2'' ''style'' (Some ''n1'')]"

definition styleReport :: ExecutionReport where
  "styleReport =
     \<lparr> createdNodes = [],
       updatedNodes = [\<lparr> updatedId = ''n1'', updatedName = ''Title'', changedProperties = [''fills''],
                         variantProps = None \<rparr>],
       deletedNodeIds = [], createdNodeIds = [], reportError = None \<rparr>"

subsection \<open>Steps\<close>

text \<open>
  \<open>fallbackRuns\<close>: the validate step has a script to look at and its \<open>try\<close> body throws, at
  the TODO pattern or at the thought callback.  \<open>validationFindsDefects\<close>: the verdict the
  step acts on is a defect, the fallback check's when the \<open>try\<close> body throws and the
  validator path's otherwise.  \<open>verifyLogsMissing\<close>: the verify step has a report and a plan
  and at least one TODO stays unmatched.
\<close>

definition validatorVerdict :: "StepEnv \<Rightarrow> string \<Rightarrow> bool" where
  "validatorVerdict env code = codeIsValid (validateFigmaCode (validatorInput env)) code"

definition fallbackRuns :: "StepEnv \<Rightarrow> WorkflowState \<Rightarrow> bool" where
  "fallbackRuns env s =
     (case (truthyValue (generatedCode s), generation s) of
        (Some code, Some gen) \<Rightarrow>
          todoValidationThrows env s
          \<or> (thoughtCallbackThrows env
              \<and> (validatorVerdict env code \<or> retryCount s < maxRetries s))
      | other \<Rightarrow> False)"

definition validationFindsDefects :: "StepEnv \<Rightarrow> WorkflowState \<Rightarrow> bool" where
  "validationFindsDefects env s =
     (case (truthyValue (generatedCode s), generation s) of
        (Some code, Some gen) \<Rightarrow>
          if fallbackRuns env s then fallbackErrors code \<noteq> []
          else \<not> validatorVerdict env code
      | other \<Rightarrow> False)"

definition verifyLogsMissing :: "(string \<Rightarrow> string) \<Rightarrow> WorkflowState \<Rightarrow> bool" where
  "verifyLogsMissing lc s =
     (case execution_report (collectedAssets (collectedContext s)) of
        None \<Rightarrow> False
      | Some report \<Rightarrow>
          (case plan s of
             None \<Rightarrow> False
           | Some p \<Rightarrow>
               (case stateEvaluations lc s p report of
                  Inl f \<Rightarrow> False
                | Inr evs \<Rightarrow> missingEvaluations evs \<noteq> [])))"

definition quietEnv :: StepEnv where
  "quietEnv = \<lparr> contextUpdate = None, toLowerCase = (\<lambda>s. s), promptThrows = False,
                planningOutcome = Threw [], designOutcome = Threw [], learningSummary = None,
                generationOutcome = Threw [],
                validatorInput = \<lparr> sourceFile = Returned (OtherNode []),
                                   semanticDiagnostics = [],
                                   layoutPatternMatches = [] \<rparr>,
                regexRejects = (\<lambda>pattern. False),
                thoughtCallbackThrows = False \<rparr>"

definition emptyReport :: ExecutionReport where
  "emptyReport = \<lparr> createdNodes = [], updatedNodes = [], deletedNodeIds = [], createdNodeIds = [],
                   reportError = None \<rparr>"

definition reportedState :: "TodoItem list \<Rightarrow> WorkflowState" where
  "reportedState todos =
     (createInitialState ''draw a button'' None None)
       \<lparr> plan := Some \<lparr> strategy = ''create'', defaultScenarioId = None, todoList = todos \<rparr>,
         collectedContext :=
           \<lparr> nodeDetails = Map.empty,
             collectedAssets = \<lparr> execution_report = Some emptyReport, otherAssets = Map.empty \<rparr>,
             answers = Map.empty \<rparr>,
         currentStep := ''verify'' \<rparr>"

text \<open>
  A state at the validate step whose retry budget is used up (\<open>retryCount = maxRetries = 3\<close>),
  with a script that calls no Figma API and a plan whose one TODO has the id \<open>todo_(\<close>.
  On this state the \<open>try\<close> body of \<open>validateCode\<close> throws: \<open>validateTodoImplementation\<close>
  builds \<open>new RegExp("TODO_(", "g")\<close>, an unterminated group.  \<open>throwingEnv\<close> is an
  environment whose regular expressions reject that pattern.
\<close>

definition throwingEnv :: StepEnv where
  "throwingEnv = quietEnv \<lparr> regexRejects := (\<lambda>pattern. pattern = ''TODO_('') \<rparr>"

definition exhaustedState :: WorkflowState where
  "exhaustedState =
     (createInitialState ''draw a button'' None None)
       \<lparr> plan := Some \<lparr> strategy = ''create'', defaultScenarioId = None,
                         todoList = [plainTodo ''todo_('' ''create'' None] \<rparr>,
         generatedCode := Some ''const x = 1;'',
         generation := Some \<lparr> genCode = ''const x = 1;'', todoImplementation = Map.empty \<rparr>,
         currentStep := ''validate'', retryCount := 3 \<rparr>"




text \<open>
  A run from the initial state.  \<open>workingEnv\<close>: the completion service answers with a plan,
  a design and a script that calls no Figma API.  \<open>closingEnv\<close>: it answers with a script
  that creates a frame after a top-level \<open>await\<close>, and the thought callback throws when the
  validate step announces its verdict.
\<close>

definition awaitScript :: string where
  "awaitScript = ''await figma.loadFontAsync(font); const f = figma.createFrame();''"

definition workingEnv :: StepEnv where
  "workingEnv =
     quietEnv \<lparr> planningOutcome :=
                   Returned \<lparr> strategy = ''create'', defaultScenarioId = None,
                              todoList = [plainTodo ''todo_1'' ''create'' None] \<rparr>,
                 designOutcome :=
                   Returned (\<lparr> todoDesigns = [namedDesign ''todo_1'' ''Button''],
                               executionOrder = [''todo_1''], parentChildMap = Map.empty \<rparr>,
                             ''{}''),
                 generationOutcome := Returned ''const x = 1;'' \<rparr>"

definition closingEnv :: StepEnv where
  "closingEnv = workingEnv \<lparr> generationOutcome := Returned awaitScript,
                             thoughtCallbackThrows := True \<rparr>"

text \<open>
  Serializing a state to JSON and reading it back.  Every field of the state is plain data
  that JSON carries as it is, except the two \<open>Map\<close> objects: \<open>JSON.stringify\<close> writes a
  \<open>Map\<close> as \<open>{}\<close>, so their entries are gone afterwards.  \<open>outlook\<close> is what the claim
  compares: the next step and the requested context of a step's result.
\<close>

definition withoutParentChildMap :: "DesignResult option \<Rightarrow> DesignResult option" where
  "withoutParentChildMap d = map_option (\<lambda>x. x \<lparr> parentChildMap := Map.empty \<rparr>) d"

definition withoutTodoImplementation :: "GenerationResult option \<Rightarrow> GenerationResult option" where
  "withoutTodoImplementation g = map_option (\<lambda>x. x \<lparr> todoImplementation := Map.empty \<rparr>) g"

definition json_roundtrip :: "WorkflowState \<Rightarrow> WorkflowState" where
  "json_roundtrip s =
     s \<lparr> design := withoutParentChildMap (design s),
         generation := withoutTodoImplementation (generation s) \<rparr>"

definition outlook :: "failure + StepResult \<Rightarrow> failure + string \<times> RequestedContext" where
  "outlook res = map_sum (\<lambda>f. f) (\<lambda>r. (nextStep r, resultRequestedContext r)) res"

text \<open>A state at the verify step with a report and one TODO that the report does not bear out.\<close>

definition shortfallState :: WorkflowState where
  "shortfallState = (reportedState [plainTodo ''todo_1'' ''create'' None]) \<lparr> retryCount := 1 \<rparr>"


section \<open>The Code Validator: colour errors\<close>

lemma rangeError_kind: "rangeError lno tx ps = Some e \<Longrightarrow> errType e = COLOR_FORMAT"
  by (induction lno tx ps rule: rangeError.induct) (auto split: if_splits)

lemma validateColorFormat_kind: "validateColorFormat lno tx ps = Some e \<Longrightarrow> errType e = COLOR_FORMAT"
  by (auto simp: validateColorFormat_def split: if_splits dest: rangeError_kind)

lemma validateFigmaApiUsage_kind: "validateFigmaApiUsage lno tx e n = Some x \<Longrightarrow> errType x = FIGMA_API"
  by (cases e) (auto split: if_splits)

lemma filter_color_opt:
  "filter isColorError (opt_list (validateColorFormat lno tx ps)) = opt_list (validateColorFormat lno tx ps)"
  by (cases "validateColorFormat lno tx ps")
     (auto simp: opt_list_def isColorError_def dest: validateColorFormat_kind)

lemma filter_api_opt:
  "filter isColorError (opt_list (validateFigmaApiUsage lno tx e n)) = []"
  by (cases "validateFigmaApiUsage lno tx e n")
     (auto simp: opt_list_def isColorError_def dest: validateFigmaApiUsage_kind)

lemma concat_opt_list:
  "concat (map (\<lambda>l. opt_list (f l)) ls) = map (\<lambda>l. the (f l)) (filter (\<lambda>l. f l \<noteq> None) ls)"
  by (induction ls) (auto simp: opt_list_def)

lemma visit_color:
  "filter isColorError (visit n) = concat (map (\<lambda>l. opt_list (colorErrorOf l)) (objectLiterals n))"
  "filter isColorError (visit_nodes ns) = concat (map (\<lambda>l. opt_list (colorErrorOf l)) (objectLiterals_nodes ns))"
  "filter isColorError (visit_property p) = concat (map (\<lambda>l. opt_list (colorErrorOf l)) (objectLiterals_property p))"
  "filter isColorError (visit_properties ps) = concat (map (\<lambda>l. opt_list (colorErrorOf l)) (objectLiterals_properties ps))"
  by (induction n and ns and p and ps rule: visit_visit_nodes_visit_property_visit_properties.induct)
     (simp_all add: filter_color_opt filter_api_opt colorErrorOf_def)

lemma specifics_color:
  "filter isColorError (validateFigmaSpecifics sf ms) = map (\<lambda>l. the (colorErrorOf l)) (flagged sf)"
  by (simp add: validateFigmaSpecifics_def visit_color concat_opt_list flagged_def)
     (simp add: layoutError_def isColorError_def filter_empty_conv)

lemma type_errors_not_color: "filter isColorError (map typeError ds) = []"
  by (simp add: filter_empty_conv typeError_def isColorError_def)

text \<open>
  Every flagged object literal contributes exactly one \<open>COLOR_FORMAT\<close> error, in visiting
  order, and nothing else does.
\<close>

lemma validateFigmaCode_color:
  "sourceFile inp = Returned sf \<Longrightarrow>
   filter isColorError (errors (validateFigmaCode inp)) = map (\<lambda>l. the (colorErrorOf l)) (flagged sf)"
  by (simp add: validateFigmaCode_def Let_def specifics_color type_errors_not_color)

text \<open>
  C6, as the code has it.  When the parsed script holds the literal \<open>{r:1,g:0,b:0,a:0.5}\<close> and
  that literal is the only object literal the colour rule flags, \<open>validateFigmaCode\<close> returns
  exactly one error of type \<open>COLOR_FORMAT\<close>, and its message is the one about the \<open>"a"\<close>
  (alpha) property.
\<close>

theorem validateFigmaCode_alpha_literal:
  assumes "sourceFile inp = Returned sf"
    and "flagged sf = [(lno, tx, rgbaLiteral)]"
  shows "\<exists>e. filter isColorError (errors (validateFigmaCode inp)) = [e] \<and> message e = alphaMessage"
  using assms
  by (simp add: validateFigmaCode_color colorErrorOf_def validateColorFormat_def hasKey_def
      rgbaLiteral_def)

theorem validateFigmaCode_alpha_literal_witness:
  "\<exists>e. filter isColorError (errors (validateFigmaCode oneLiteral)) = [e] \<and> message e = alphaMessage"
proof -
  have a: "sourceFile oneLiteral = Returned (OtherNode
       [ObjectLiteralExpression 1 ''{r:1,g:0,b:0,a:0.5}'' rgbaLiteral])"
    by (simp add: oneLiteral_def)
  have b: "flagged (OtherNode [ObjectLiteralExpression 1 ''{r:1,g:0,b:0,a:0.5}'' rgbaLiteral])
           = [(1, ''{r:1,g:0,b:0,a:0.5}'', rgbaLiteral)]"
    by (simp add: flagged_def colorErrorOf_def validateColorFormat_def hasKey_def rgbaLiteral_def)
  show ?thesis using validateFigmaCode_alpha_literal [OF a b] .
qed

text \<open>
  The claim as stated fails: a script that holds the literal twice gets two \<open>COLOR_FORMAT\<close>
  errors, one per literal.
\<close>

theorem validateFigmaCode_two_literals:
  "length (filter isColorError (errors (validateFigmaCode twoLiterals))) = 2"
  by (simp add: twoLiterals_def validateFigmaCode_def validateFigmaSpecifics_def
      validateColorFormat_def hasKey_def rgbaLiteral_def opt_list_def isColorError_def Let_def)


section \<open>The Error Recovery Engine: patterns and strategies\<close>

text \<open>
  C3, as the code has it.  With more than five recorded errors of mixed categories (no
  category on more than two of them) the pattern is \<open>persistent_failures\<close> and the strategy
  is \<open>abort\<close>, whatever the current error's category and the retry count.
\<close>

theorem recovery_persistent_failures_abort:
  assumes "length h > 5"
    and "\<forall>c. length (filter (\<lambda>e. errorType e = c) h) \<le> 2"
  shows "analyzeErrorPattern h = ''persistent_failures'' \<and>
         determineRecoveryStrategy t rc (analyzeErrorPattern h) = ''abort''"
proof -
  from assms(1) have ne: "h \<noteq> []" by auto
  from assms(2) have "\<not> length (filter (\<lambda>e. errorType e = errorType (last h)) h) > 2"
    by (simp add: not_less)
  with ne assms(1) have "analyzeErrorPattern h = ''persistent_failures''"
    by (simp add: analyzeErrorPattern_def Let_def)
  then show ?thesis by (simp add: determineRecoveryStrategy_def)
qed

theorem recovery_persistent_failures_abort_witness:
  "length sixMixed > 5 \<and> analyzeErrorPattern sixMixed = ''persistent_failures'' \<and>
   determineRecoveryStrategy ''planning'' 0 (analyzeErrorPattern sixMixed) = ''abort''"
proof -
  have a: "length sixMixed > 5" by (simp add: sixMixed_def)
  have b: "\<forall>c. length (filter (\<lambda>e. errorType e = c) sixMixed) \<le> 2"
    by (auto simp: sixMixed_def errorOfType_def)
  show ?thesis using recovery_persistent_failures_abort [OF a b, of "''planning''" 0] a by blast
qed

text \<open>
  The claim as stated fails: with five recorded errors, one of each category, the pattern
  is \<open>isolated_error\<close> and, at retry count 0, the strategy is \<open>retry_with_learning\<close>.
\<close>

theorem recovery_five_mixed_isolated:
  "analyzeErrorPattern fiveMixed = ''isolated_error'' \<and>
   determineRecoveryStrategy ''unknown'' 0 (analyzeErrorPattern fiveMixed) = ''retry_with_learning''"
  by (simp add: fiveMixed_def errorOfType_def analyzeErrorPattern_def determineRecoveryStrategy_def)


section \<open>applyCodeGuards is the identity on scripts it has nothing to guard in\<close>

lemma replaceDeclarations_none:
  "\<not> hasDeclaration name s \<Longrightarrow> replaceDeclarations 0 name v s = s"
  by (induction s) auto

lemma foldl_replaceDeclarations_none:
  "\<forall>tc \<in> set tcs. \<not> hasDeclaration (fst tc) s \<Longrightarrow>
   foldl (\<lambda>p tc. replaceDeclarations 0 (fst tc) (snd tc) p) s tcs = s"
  by (induction tcs) (auto simp: replaceDeclarations_none)

text \<open>
  C10.  On a script without the substring \<open>.insertChild(\<close> and without a declaration of one of
  the three collection-key constants, \<open>applyCodeGuards\<close> returns the script unchanged.
\<close>

theorem applyCodeGuards_identity:
  assumes "\<not> str_includes code ''.insertChild(''"
    and "\<forall>tc \<in> set tokenConstants. \<not> hasDeclaration (fst tc) code"
  shows "applyCodeGuards g code = code"
  using assms by (simp add: applyCodeGuards_def Let_def foldl_replaceDeclarations_none)

theorem applyCodeGuards_identity_witness:
  "applyCodeGuards (\<lambda>c. []) sampleScript = sampleScript"
proof -
  have a: "\<not> str_includes sampleScript ''.insertChild(''"
    by (simp add: sampleScript_def)
  have b: "\<forall>tc \<in> set tokenConstants. \<not> hasDeclaration (fst tc) sampleScript"
    by code_simp
  show ?thesis using applyCodeGuards_identity [OF a b] .
qed


section \<open>The Verification Matcher: attribution\<close>

lemma outcome_unmatched: "matchOutcome todo lock ok ms (unmatched todo r ms)"
  by (auto simp: matchOutcome_def)

lemma outcome_matched:
  "ok nodeId mt \<Longrightarrow> matchOutcome todo lock ok ms (matchedAs todo nodeId lock mt ms)"
  by (auto simp: matchOutcome_def)

lemma outcome_weaken:
  assumes "matchOutcome todo lock ok ms ms'" and "\<And>n mt. ok n mt \<Longrightarrow> ok' n mt"
  shows "matchOutcome todo lock ok' ms ms'"
  using assms unfolding matchOutcome_def by blast

lemma pickCreatedNode_free:
  assumes a: "pickCreatedNode lc nm ep assigned created = Some c"
  shows "createdId c \<notin> assigned"
proof -
  let ?P = "\<lambda>node. nameMatches lc nm (createdName node) \<and> createdId node \<notin> assigned
             \<and> (case truthyValue ep of None \<Rightarrow> True | Some p \<Rightarrow> createdParentId node = Some p)"
  show ?thesis
  proof (cases "filter ?P created")
    case Nil
    with a have "find (\<lambda>node. createdId node \<notin> assigned \<and> nameMatches lc nm (createdName node)) created = Some c"
      by (simp add: pickCreatedNode_def)
    then show ?thesis by (auto simp: find_Some_iff)
  next
    case (Cons x xs)
    with a have "x = c" by (simp add: pickCreatedNode_def)
    moreover from Cons have "x \<in> set (filter ?P created)" by simp
    ultimately show ?thesis by simp
  qed
qed

lemma matchDelete_outcome:
  "matchOutcome todo False (\<lambda>n mt. truthyValue target = Some n \<and> n \<in> set (deletedNodeIds report)) ms
     (matchDelete todo target report ms)"
  by (simp add: matchDelete_def outcome_unmatched outcome_matched split: option.split)

lemma find_by_id:
  assumes "find (\<lambda>node. updatedId node = t) nodes = Some x"
  shows "x \<in> set nodes \<and> updatedId x = t"
  using assms by (auto simp: find_Some_iff)

lemma find_unattributed:
  assumes "find (\<lambda>node. m (updatedId node) = None \<and> P node) nodes = Some x"
  shows "x \<in> set nodes \<and> m (updatedId x) = None"
  using assms by (auto simp: find_Some_iff)

lemma matchModifyByName_outcome:
  assumes "matchModifyByName lc todo r name ep ev report ms = Inr ms'"
  shows "matchOutcome todo False
           (\<lambda>n mt. (mt = ''modify'' \<or> mt = ''style'') \<and> nodeIdToModifyTodo ms n = None
                    \<and> (\<exists>node \<in> set (updatedNodes report).
                          updatedId node = n \<and> checkProperties lc ep ev node = Inr True))
           ms ms'"
proof (cases "truthyValue name")
  case None
  with assms show ?thesis by (auto simp: matchModifyByName_def outcome_unmatched)
next
  case (Some nm)
  show ?thesis
  proof (cases "find (\<lambda>node. nodeIdToModifyTodo ms (updatedId node) = None
                              \<and> nameMatches lc nm (updatedName node)) (updatedNodes report)")
    case None
    with Some assms show ?thesis by (auto simp: matchModifyByName_def outcome_unmatched)
  next
    case found: (Some x)
    from find_unattributed [OF found]
    have x: "x \<in> set (updatedNodes report)" "nodeIdToModifyTodo ms (updatedId x) = None" by auto
    show ?thesis
    proof (cases "checkProperties lc ep ev x")
      case (Inl f)
      with Some found assms show ?thesis by (simp add: matchModifyByName_def)
    next
      case (Inr ok)
      show ?thesis
      proof (cases ok)
        case True
        with Inr Some found assms
        have "ms' = matchedAs todo (updatedId x) False
                      (if todoType todo = ''style'' then ''style'' else ''modify'') ms"
          by (simp add: matchModifyByName_def)
        moreover from x Inr True
        have "\<exists>node \<in> set (updatedNodes report).
                 updatedId node = updatedId x \<and> checkProperties lc ep ev node = Inr True"
          by auto
        ultimately show ?thesis using x(2) by (auto intro!: outcome_matched)
      next
        case False
        with Inr Some found assms show ?thesis
          by (auto simp: matchModifyByName_def outcome_unmatched)
      qed
    qed
  qed
qed

lemma matchModify_outcome:
  assumes "matchModify lc todo name target ep ev report ms = Inr ms'"
  shows "matchOutcome todo False
           (\<lambda>n mt. (mt = ''modify'' \<or> mt = ''style'')
                    \<and> (truthyValue target = Some n \<or> nodeIdToModifyTodo ms n = None)
                    \<and> (\<exists>node \<in> set (updatedNodes report).
                          updatedId node = n \<and> checkProperties lc ep ev node = Inr True))
           ms ms'"
proof -
  have byName: "?thesis" if a: "matchModifyByName lc todo r name ep ev report ms = Inr ms'" for r
    using matchModifyByName_outcome [OF a] by (rule outcome_weaken) auto
  show ?thesis
  proof (cases "truthyValue target")
    case None
    with assms have "matchModifyByName lc todo NoSatisfyingNode name ep ev report ms = Inr ms'"
      by (simp add: matchModify_def)
    then show ?thesis by (rule byName)
  next
    case (Some t)
    show ?thesis
    proof (cases "find (\<lambda>node. updatedId node = t) (updatedNodes report)")
      case None
      with Some assms have "matchModifyByName lc todo TargetNotModified name ep ev report ms = Inr ms'"
        by (simp add: matchModify_def)
      then show ?thesis by (rule byName)
    next
      case found: (Some x)
      from find_by_id [OF found] have x: "x \<in> set (updatedNodes report)" "updatedId x = t" by auto
      show ?thesis
      proof (cases "checkProperties lc ep ev x")
        case (Inl f)
        with Some found assms show ?thesis by (simp add: matchModify_def)
      next
        case (Inr ok)
        show ?thesis
        proof (cases ok)
          case True
          with Inr Some found assms
          have "ms' = matchedAs todo (updatedId x) False
                        (if todoType todo = ''style'' then ''style'' else ''modify'') ms"
            by (simp add: matchModify_def)
          moreover from x Inr True
          have "\<exists>node \<in> set (updatedNodes report).
                   updatedId node = updatedId x \<and> checkProperties lc ep ev node = Inr True"
            by auto
          ultimately show ?thesis using x(2) Some by (auto intro!: outcome_matched)
        next
          case False
          with Inr Some found assms
          have "matchModifyByName lc todo (PropertiesDiffer (changedProperties x) ep) name ep ev
                  report ms = Inr ms'"
            by (simp add: matchModify_def)
          then show ?thesis by (rule byName)
        qed
      qed
    qed
  qed
qed

lemma matchCreateById_outcome:
  "matchOutcome todo True (\<lambda>n mt. n \<notin> assignedNodeIds ms) ms (matchCreateById todo r target report ms)"
  by (simp add: matchCreateById_def outcome_unmatched outcome_matched split: option.split)

lemma matchCreate_outcome:
  "matchOutcome todo True (\<lambda>n mt. n \<notin> assignedNodeIds ms) ms (matchCreate lc todo dt name target report ms)"
proof (cases "truthyValue name")
  case None
  then show ?thesis by (simp add: matchCreate_def matchCreateById_outcome)
next
  case (Some nm)
  show ?thesis
  proof (cases "pickCreatedNode lc nm (expectedParentOf dt ms) (assignedNodeIds ms) (createdNodes report)")
    case None
    with Some show ?thesis by (simp add: matchCreate_def matchCreateById_outcome)
  next
    case (Some c)
    then have "createdId c \<notin> assignedNodeIds ms" by (rule pickCreatedNode_free)
    with Some \<open>truthyValue name = Some nm\<close> show ?thesis
      by (simp add: matchCreate_def outcome_matched)
  qed
qed

text \<open>What one turn of the loop does when it returns, by the type of the TODO.\<close>

lemma evaluateTodo_outcome:
  assumes ret: "evaluateTodo lc designs report ms todo = Inr ms'"
  shows "matchOutcome todo (isCreateTodo todo)
     (\<lambda>n mt. (isCreateTodo todo \<longrightarrow> n \<notin> assignedNodeIds ms)
          \<and> (todoType todo = ''delete'' \<longrightarrow>
                truthyValue (targetOf (designs (todoId todo)) todo) = Some n
                \<and> n \<in> set (deletedNodeIds report))
          \<and> (isModifyTodo todo \<longrightarrow>
                (mt = ''modify'' \<or> mt = ''style'')
                \<and> (truthyValue (targetOf (designs (todoId todo)) todo) = Some n
                    \<or> nodeIdToModifyTodo ms n = None)
                \<and> passesCheck lc designs report todo n))
     ms ms'"
proof -
  consider (del) "todoType todo = ''delete''"
    | (mod) "todoType todo \<noteq> ''delete''" "isModifyTodo todo"
    | (cre) "isCreateTodo todo"
    by (auto simp: isCreateTodo_def isModifyTodo_def)
  then show ?thesis
  proof cases
    case del
    then have nc: "\<not> isCreateTodo todo" "\<not> isModifyTodo todo"
      by (simp_all add: isCreateTodo_def isModifyTodo_def)
    from del ret have e: "ms' = matchDelete todo (targetOf (designs (todoId todo)) todo) report ms"
      by (simp add: evaluateTodo_def Let_def)
    show ?thesis
      unfolding e using nc del
      by (auto intro: outcome_weaken [OF matchDelete_outcome])
  next
    case mod
    then have nc: "\<not> isCreateTodo todo" by (auto simp: isCreateTodo_def isModifyTodo_def)
    from mod ret obtain nm where e: "matchModify lc todo nm (targetOf (designs (todoId todo)) todo)
          (todoPropertyHints (todoType todo)) (expectedVariantOf todo (designs (todoId todo)))
          report ms = Inr ms'"
      by (auto simp: evaluateTodo_def isModifyTodo_def Let_def)
    show ?thesis
      using nc mod
      by (auto intro!: outcome_weaken [OF matchModify_outcome [OF e]]
               simp: passesCheck_def list_ex_iff)
  next
    case cre
    then have nm: "\<not> isModifyTodo todo" "todoType todo \<noteq> ''delete''"
      by (auto simp: isCreateTodo_def isModifyTodo_def)
    from cre ret obtain nm where e: "ms'
        = matchCreate lc todo (designs (todoId todo)) nm (targetOf (designs (todoId todo)) todo) report ms"
      by (auto simp: evaluateTodo_def isCreateTodo_def Let_def)
    show ?thesis
      unfolding e using cre nm
      by (auto intro: outcome_weaken [OF matchCreate_outcome])
  qed
qed

lemma recordMatch_assigned:
  "assignedNodeIds (recordMatch tid nodeId lock mt ms) =
     (if lock then insert nodeId (assignedNodeIds ms) else assignedNodeIds ms)"
  by (simp add: recordMatch_def Let_def)

lemma recordMatch_evaluations: "evaluations (recordMatch tid nodeId lock mt ms) = evaluations ms"
  by (simp add: recordMatch_def Let_def)

lemma recordMatch_modify:
  "nodeIdToModifyTodo (recordMatch tid nodeId lock mt ms) =
     (if mt = ''modify'' \<or> mt = ''style'' then (nodeIdToModifyTodo ms)(nodeId \<mapsto> tid)
      else nodeIdToModifyTodo ms)"
  by (simp add: recordMatch_def Let_def)

lemma shared_snoc:
  "sharedOnlyByTarget designs (evs @ [e]) \<longleftrightarrow>
     sharedOnlyByTarget designs evs
     \<and> (modifyMatch e \<longrightarrow>
          (\<forall>x \<in> set evs. modifyMatch x \<and> matchedNodeId x = matchedNodeId e
                           \<longrightarrow> namesTarget designs e))"
proof
  assume a: "sharedOnlyByTarget designs (evs @ [e])"
  have "sharedOnlyByTarget designs evs"
    unfolding sharedOnlyByTarget_def
  proof (intro allI impI)
    fix j i assume "j < length evs" "i < j"
      "modifyMatch (evs ! i) \<and> modifyMatch (evs ! j) \<and> matchedNodeId (evs ! i) = matchedNodeId (evs ! j)"
    then show "namesTarget designs (evs ! j)"
      using a [unfolded sharedOnlyByTarget_def, rule_format, of j i]
      by (simp add: nth_append)
  qed
  moreover have "modifyMatch e \<longrightarrow>
          (\<forall>x \<in> set evs. modifyMatch x \<and> matchedNodeId x = matchedNodeId e
                           \<longrightarrow> namesTarget designs e)"
  proof (intro impI ballI)
    fix x assume e: "modifyMatch e" and x: "x \<in> set evs"
      and m: "modifyMatch x \<and> matchedNodeId x = matchedNodeId e"
    from x obtain i where i: "i < length evs" "evs ! i = x" by (auto simp: in_set_conv_nth)
    show "namesTarget designs e"
      using a [unfolded sharedOnlyByTarget_def, rule_format, of "length evs" i] i e m
      by (simp add: nth_append)
  qed
  ultimately show "sharedOnlyByTarget designs evs
     \<and> (modifyMatch e \<longrightarrow>
          (\<forall>x \<in> set evs. modifyMatch x \<and> matchedNodeId x = matchedNodeId e
                           \<longrightarrow> namesTarget designs e))"
    by blast
next
  assume a: "sharedOnlyByTarget designs evs
     \<and> (modifyMatch e \<longrightarrow>
          (\<forall>x \<in> set evs. modifyMatch x \<and> matchedNodeId x = matchedNodeId e
                           \<longrightarrow> namesTarget designs e))"
  show "sharedOnlyByTarget designs (evs @ [e])"
    unfolding sharedOnlyByTarget_def
  proof (intro allI impI)
    fix j i assume j: "j < length (evs @ [e])" and i: "i < j"
      and m: "modifyMatch ((evs @ [e]) ! i) \<and> modifyMatch ((evs @ [e]) ! j)
              \<and> matchedNodeId ((evs @ [e]) ! i) = matchedNodeId ((evs @ [e]) ! j)"
    show "namesTarget designs ((evs @ [e]) ! j)"
    proof (cases "j < length evs")
      case True
      with i m a [THEN conjunct1, unfolded sharedOnlyByTarget_def, rule_format, of j i]
      show ?thesis by (simp add: nth_append)
    next
      case False
      with j have jl: "j = length evs" by simp
      with i have "evs ! i \<in> set evs" by simp
      with jl i m a show ?thesis by (auto simp: nth_append)
    qed
  qed
qed

lemma unmatched_inv:
  assumes "matcherInv lc designs report ms"
  shows "matcherInv lc designs report (unmatched todo r ms)"
proof -
  let ?e = "\<lparr> evTodo = todo, matched = False, evReason = r, matchedNodeId = None \<rparr>"
  have ev: "evaluations (unmatched todo r ms) = evaluations ms @ [?e]"
    and rest: "assignedNodeIds (unmatched todo r ms) = assignedNodeIds ms"
              "nodeIdToModifyTodo (unmatched todo r ms) = nodeIdToModifyTodo ms"
    by (simp_all add: unmatched_def pushEvaluation_def)
  have e: "\<not> modifyMatch ?e" "\<not> matched ?e"
    by (simp_all add: modifyMatch_def)
  from assms show ?thesis
    unfolding matcherInv_def ev rest shared_snoc
    using e by (auto simp: createMatches_def deleteMatchOk_def modifyMatchOk_def)
qed

lemma matchedAs_inv:
  assumes inv: "matcherInv lc designs report ms"
    and lock: "lock = isCreateTodo todo"
    and free: "isCreateTodo todo \<longrightarrow> nodeId \<notin> assignedNodeIds ms"
    and del: "todoType todo = ''delete'' \<longrightarrow>
            truthyValue (targetOf (designs (todoId todo)) todo) = Some nodeId
            \<and> nodeId \<in> set (deletedNodeIds report)"
    and mod: "isModifyTodo todo \<longrightarrow>
            (mt = ''modify'' \<or> mt = ''style'')
            \<and> (truthyValue (targetOf (designs (todoId todo)) todo) = Some nodeId
                \<or> nodeIdToModifyTodo ms nodeId = None)
            \<and> passesCheck lc designs report todo nodeId"
  shows "matcherInv lc designs report (matchedAs todo nodeId lock mt ms)"
proof -
  let ?e = "\<lparr> evTodo = todo, matched = True, evReason = MatchedReason, matchedNodeId = Some nodeId \<rparr>"
  let ?ms' = "matchedAs todo nodeId lock mt ms"
  have ev: "evaluations ?ms' = evaluations ms @ [?e]"
    by (simp add: matchedAs_def pushEvaluation_def recordMatch_evaluations)
  have asg: "assignedNodeIds ?ms'
      = (if lock then insert nodeId (assignedNodeIds ms) else assignedNodeIds ms)"
    by (simp add: matchedAs_def pushEvaluation_def recordMatch_assigned)
  have mp: "nodeIdToModifyTodo ?ms' =
     (if mt = ''modify'' \<or> mt = ''style'' then (nodeIdToModifyTodo ms)(nodeId \<mapsto> todoId todo)
      else nodeIdToModifyTodo ms)"
    by (simp add: matchedAs_def pushEvaluation_def recordMatch_modify)
  have mono: "\<And>n. nodeIdToModifyTodo ms n \<noteq> None \<Longrightarrow> nodeIdToModifyTodo ?ms' n \<noteq> None"
    by (simp add: mp)
  have em: "modifyMatch ?e = isModifyTodo todo" by (simp add: modifyMatch_def)
  from inv have i1: "distinct (map matchedNodeId (createMatches (evaluations ms)))"
    and i2: "set (map matchedNodeId (createMatches (evaluations ms))) \<subseteq> Some ` assignedNodeIds ms"
    and i3: "\<forall>e \<in> set (evaluations ms). deleteMatchOk designs report e"
    and i4: "\<forall>e \<in> set (evaluations ms). modifyMatchOk lc designs report e"
    and i5: "\<forall>e \<in> set (evaluations ms). modifyMatch e \<longrightarrow>
             (\<exists>n. matchedNodeId e = Some n \<and> nodeIdToModifyTodo ms n \<noteq> None)"
    and i6: "sharedOnlyByTarget designs (evaluations ms)"
    by (simp_all add: matcherInv_def)
  have c1: "distinct (map matchedNodeId (createMatches (evaluations ?ms')))"
  proof (cases "isCreateTodo todo")
    case True
    with free i2 have "Some nodeId \<notin> set (map matchedNodeId (createMatches (evaluations ms)))"
      by auto
    with i1 True show ?thesis unfolding ev by (simp add: createMatches_def)
  next
    case False
    with i1 show ?thesis unfolding ev by (simp add: createMatches_def)
  qed
  have c2: "set (map matchedNodeId (createMatches (evaluations ?ms'))) \<subseteq> Some ` assignedNodeIds ?ms'"
    unfolding ev asg using i2 lock by (auto simp: createMatches_def)
  have c3: "\<forall>e \<in> set (evaluations ?ms'). deleteMatchOk designs report e"
    unfolding ev using i3 del by (auto simp: deleteMatchOk_def)
  have c4: "\<forall>e \<in> set (evaluations ?ms'). modifyMatchOk lc designs report e"
    unfolding ev using i4 mod by (auto simp: modifyMatchOk_def)
  have c5: "\<forall>e \<in> set (evaluations ?ms'). modifyMatch e \<longrightarrow>
             (\<exists>n. matchedNodeId e = Some n \<and> nodeIdToModifyTodo ?ms' n \<noteq> None)"
  proof
    fix e assume "e \<in> set (evaluations ?ms')"
    then consider (old) "e \<in> set (evaluations ms)" | (new) "e = ?e" by (auto simp: ev)
    then show "modifyMatch e \<longrightarrow>
             (\<exists>n. matchedNodeId e = Some n \<and> nodeIdToModifyTodo ?ms' n \<noteq> None)"
    proof cases
      case old
      with i5 mono show ?thesis by blast
    next
      case new
      show ?thesis
      proof
        assume "modifyMatch e"
        with new em have "isModifyTodo todo" by simp
        with mod have "mt = ''modify'' \<or> mt = ''style''" by simp
        then have "nodeIdToModifyTodo ?ms' nodeId \<noteq> None" by (simp add: mp)
        with new show "\<exists>n. matchedNodeId e = Some n \<and> nodeIdToModifyTodo ?ms' n \<noteq> None"
          by simp
      qed
    qed
  qed
  have c6: "sharedOnlyByTarget designs (evaluations ?ms')"
    unfolding ev shared_snoc
  proof (intro conjI impI ballI)
    show "sharedOnlyByTarget designs (evaluations ms)" by (rule i6)
  next
    fix x assume me: "modifyMatch ?e" and x: "x \<in> set (evaluations ms)"
      and m: "modifyMatch x \<and> matchedNodeId x = matchedNodeId ?e"
    from me em have it: "isModifyTodo todo" by simp
    from i5 x m obtain n where n: "matchedNodeId x = Some n" "nodeIdToModifyTodo ms n \<noteq> None"
      by blast
    with m have "n = nodeId" by simp
    with n mod it have "truthyValue (targetOf (designs (todoId todo)) todo) = Some nodeId"
      by auto
    then show "namesTarget designs ?e" by (simp add: namesTarget_def)
  qed
  from c1 c2 c3 c4 c5 c6 show ?thesis unfolding matcherInv_def by blast
qed

lemma evaluateTodo_inv:
  assumes "matcherInv lc designs report ms"
    and "evaluateTodo lc designs report ms todo = Inr ms'"
  shows "matcherInv lc designs report ms'"
  using evaluateTodo_outcome [OF assms(2)] assms(1)
  unfolding matchOutcome_def
  by (auto intro: unmatched_inv matchedAs_inv)

lemma runTodos_inv:
  assumes "matcherInv lc designs report ms"
    and "runTodos (evaluateTodo lc designs report) ms todos = Inr ms'"
  shows "matcherInv lc designs report ms'"
  using assms
  by (induction todos arbitrary: ms) (auto split: sum.splits intro: evaluateTodo_inv)

lemma emptyMatcherState_inv: "matcherInv lc designs report emptyMatcherState"
  by (simp add: matcherInv_def emptyMatcherState_def createMatches_def sharedOnlyByTarget_def)

lemma runMatcher_inv:
  assumes "runMatcher lc planTodos dts report = Inr ms"
  shows "matcherInv lc (designTodoMap dts) report ms"
  using runTodos_inv [OF emptyMatcherState_inv] assms
  unfolding runMatcher_def by blast

lemma evaluateTodo_todos:
  assumes "evaluateTodo lc designs report ms todo = Inr ms'"
  shows "map evTodo (evaluations ms') = map evTodo (evaluations ms) @ [todo]"
  using evaluateTodo_outcome [OF assms]
  unfolding matchOutcome_def
  by (auto simp: unmatched_def matchedAs_def pushEvaluation_def recordMatch_evaluations)

lemma runTodos_todos:
  assumes "runTodos (evaluateTodo lc designs report) ms todos = Inr ms'"
  shows "map evTodo (evaluations ms') = map evTodo (evaluations ms) @ todos"
  using assms
  by (induction todos arbitrary: ms) (auto split: sum.splits simp: evaluateTodo_todos)

lemma runMatcher_todos:
  assumes "runMatcher lc planTodos dts report = Inr ms"
  shows "map evTodo (evaluations ms) = planTodos"
  using runTodos_todos [of lc "designTodoMap dts" report emptyMatcherState planTodos ms] assms
  by (simp add: runMatcher_def emptyMatcherState_def)

text \<open>
  C2, as the code has it.  Whenever the matcher returns, it has evaluated the TODOs of the
  plan in order, and
  \<^item> no two TODOs handled as creations are matched to the same node id (a created node is
    locked by the TODO that takes it);
  \<^item> a TODO of type \<open>delete\<close> is matched only if its target node id is an element of the
    report's \<open>deletedNodeIds\<close>;
  \<^item> a TODO of type \<open>modify\<close> or \<open>style\<close> is matched only to an updated node that passed its
    check of changed properties and variant properties;
  \<^item> two TODOs of type \<open>modify\<close> or \<open>style\<close> are matched to the same updated node only if the
    later one names that node as its target id: the search by name skips the nodes already
    attributed to such a TODO, the lookup by target id does not.
\<close>

theorem matcher_attribution:
  assumes "runMatcher lc planTodos dts report = Inr ms"
  shows "map evTodo (evaluations ms) = planTodos
   \<and> distinct (map matchedNodeId (createMatches (evaluations ms)))
   \<and> (\<forall>e \<in> set (evaluations ms).
         deleteMatchOk (designTodoMap dts) report e
         \<and> modifyMatchOk lc (designTodoMap dts) report e)
   \<and> sharedOnlyByTarget (designTodoMap dts) (evaluations ms)"
  using runMatcher_inv [OF assms] runMatcher_todos [OF assms]
  by (simp add: matcherInv_def)

lemma example_matches:
  "(case runMatcher (\<lambda>s. s) exampleTodos exampleDesigns exampleReport of
      Inl f \<Rightarrow> False
    | Inr ms \<Rightarrow>
        map matchedNodeId (evaluations ms)
          = [Some ''c1'', Some ''c2'', Some ''d1'', Some ''n1'', Some ''n1'']
        \<and> map matched (evaluations ms) = [True, True, True, True, True])"
  by code_simp

theorem matcher_attribution_witness:
  "\<exists>ms. runMatcher (\<lambda>s. s) exampleTodos exampleDesigns exampleReport = Inr ms
     \<and> map evTodo (evaluations ms) = exampleTodos
     \<and> map matchedNodeId (evaluations ms)
          = [Some ''c1'', Some ''c2'', Some ''d1'', Some ''n1'', Some ''n1'']
     \<and> distinct (map matchedNodeId (createMatches (evaluations ms)))
     \<and> deleteMatchOk (designTodoMap exampleDesigns) exampleReport (evaluations ms ! 2)
     \<and> modifyMatchOk (\<lambda>s. s) (designTodoMap exampleDesigns) exampleReport (evaluations ms ! 3)
     \<and> modifyMatchOk (\<lambda>s. s) (designTodoMap exampleDesigns) exampleReport (evaluations ms ! 4)
     \<and> sharedOnlyByTarget (designTodoMap exampleDesigns) (evaluations ms)"
proof -
  obtain ms where r: "runMatcher (\<lambda>s. s) exampleTodos exampleDesigns exampleReport = Inr ms"
    and m: "map matchedNodeId (evaluations ms)
              = [Some ''c1'', Some ''c2'', Some ''d1'', Some ''n1'', Some ''n1'']"
    using example_matches
    by (cases "runMatcher (\<lambda>s. s) exampleTodos exampleDesigns exampleReport") auto
  from m have "length (map matchedNodeId (evaluations ms)) = 5" by simp
  then have len: "length (evaluations ms) = 5" by simp
  then have mem: "evaluations ms ! 2 \<in> set (evaluations ms)"
    "evaluations ms ! 3 \<in> set (evaluations ms)" "evaluations ms ! 4 \<in> set (evaluations ms)"
    by simp_all
  note a = matcher_attribution [OF r]
  from a have all: "\<And>e. e \<in> set (evaluations ms) \<Longrightarrow>
      deleteMatchOk (designTodoMap exampleDesigns) exampleReport e
      \<and> modifyMatchOk (\<lambda>s. s) (designTodoMap exampleDesigns) exampleReport e"
    by simp
  show ?thesis
    using a r m all [OF mem(1)] all [OF mem(2)] all [OF mem(3)]
    by (intro exI [of _ ms]) simp
qed

text \<open>
  The claim as stated fails: two \<open>style\<close> TODOs that name the same target are both matched
  to the one updated node.
\<close>

theorem matcher_double_claim:
  "map_sum (\<lambda>f. f)
     (\<lambda>ms. (map matched (evaluations ms), map matchedNodeId (evaluations ms),
             map todoId (map evTodo (evaluations ms))))
     (runMatcher (\<lambda>s. s) styleTodos [] styleReport)
   = Inr ([True, True], [Some ''n1'', Some ''n1''], [''todo_1'', ''todo_2''])"
  by code_simp


section \<open>The verify step: the retry decision\<close>

lemma stateDesigns_same [simp]:
  "stateDesigns (think t s) = stateDesigns s"
  "stateDesigns (clearRequestedContext s) = stateDesigns s"
  "stateDesigns (s \<lparr> executionReport := x \<rparr>) = stateDesigns s"
  by (simp_all add: stateDesigns_def think_def clearRequestedContext_def)

lemma stateEvaluations_same [simp]:
  "stateEvaluations lc (think t s) = stateEvaluations lc s"
  "stateEvaluations lc (clearRequestedContext s) = stateEvaluations lc s"
  "stateEvaluations lc (s \<lparr> executionReport := x \<rparr>) = stateEvaluations lc s"
  by (simp_all add: stateEvaluations_def fun_eq_iff cong: sum.case_cong)

lemma stateEvaluations_todos:
  assumes "stateEvaluations lc s p report = Inr evs"
  shows "map evTodo evs = todoList p"
  using assms
  by (auto simp: stateEvaluations_def runMatcher_todos split: sum.splits if_splits)

lemma completedCount_all:
  assumes "missingEvaluations evs = []" and "distinct (map todoId (map evTodo evs))"
  shows "completedCount evs = length evs"
proof -
  from assms(1) have "filter matched evs = evs"
    by (simp add: missingEvaluations_def filter_empty_conv filter_id_conv)
  with assms(2) show ?thesis
    by (simp add: completedCount_def comp_def distinct_remdups_id)
qed

lemma low_rate_has_missing:
  assumes ne: "todoList p \<noteq> []"
    and di: "distinct (map todoId (todoList p))"
    and ev: "stateEvaluations lc s p report = Inr evs"
    and low: "completionRate evs (todoList p) (stateDesigns s) < 80"
  shows "missingEvaluations evs \<noteq> []"
proof
  assume m: "missingEvaluations evs = []"
  have todos: "map evTodo evs = todoList p"
    using ev by (rule stateEvaluations_todos)
  then have len: "length evs = length (todoList p)"
    by (metis length_map)
  from m di todos have "completedCount evs = length (todoList p)"
    using completedCount_all [of evs] len by simp
  moreover from ne have "totalTodos (todoList p) (stateDesigns s) = length (todoList p)"
    by (simp add: totalTodos_def)
  moreover from ne have "length (todoList p) > 0" by simp
  ultimately have "completionRate evs (todoList p) (stateDesigns s) = 100"
    by (simp add: completionRate_def)
  with low show False by simp
qed

text \<open>The payload is stored along with the \<open>verify:missing\<close> entry, before the decision.\<close>

lemma conclude_learning:
  "learning (concludeVerification p report evs s) =
     (if missingEvaluations evs = [] then learning s
      else Some (MissingTodosPayload (learning s) (map missingTodo (missingEvaluations evs))))"
  by (simp add: concludeVerification_def think_def Let_def)

lemma conclude_retry:
  assumes "completionRate evs (todoList p) (stateDesigns s) < 80" and "retryCount s < 1"
  shows "partialRetry (concludeVerification p report evs s)"
    and "retryCount (concludeVerification p report evs s) = retryCount s + 1"
    and "currentStep (concludeVerification p report evs s) = ''generate''"
  using assms by (simp_all add: concludeVerification_def think_def Let_def)

lemma conclude_complete:
  assumes "\<not> (completionRate evs (todoList p) (stateDesigns s) < 80 \<and> retryCount s < 1)"
  shows "currentStep (concludeVerification p report evs s) = ''complete''"
    and "isComplete (concludeVerification p report evs s)"
  using assms by (auto simp add: concludeVerification_def think_def Let_def)

lemma verifyExecution_returns:
  assumes rep: "execution_report (collectedAssets (collectedContext s)) = Some report"
    and pl: "plan s = Some p"
    and ev: "stateEvaluations lc s p report = Inr evs"
  shows "verifyExecution lc s
           = Inr (concludeVerification p report evs
                    (clearRequestedContext (think VerifyStart s \<lparr> executionReport := Some report \<rparr>)))"
proof -
  have pre: "execution_report (collectedAssets (collectedContext (think VerifyStart s))) = Some report"
    "plan (clearRequestedContext (think VerifyStart s \<lparr> executionReport := Some report \<rparr>)) = Some p"
    using rep pl by (simp_all add: think_def clearRequestedContext_def)
  show ?thesis
    using pre ev by (simp add: verifyExecution_def Let_def)
qed

lemma verifyExecution_throws:
  assumes rep: "execution_report (collectedAssets (collectedContext s)) = Some report"
    and pl: "plan s = Some p"
    and ev: "stateEvaluations lc s p report = Inl f"
  shows "verifyExecution lc s = Inl f"
proof -
  have pre: "execution_report (collectedAssets (collectedContext (think VerifyStart s))) = Some report"
    "plan (clearRequestedContext (think VerifyStart s \<lparr> executionReport := Some report \<rparr>)) = Some p"
    using rep pl by (simp_all add: think_def clearRequestedContext_def)
  show ?thesis
    using pre ev by (simp add: verifyExecution_def Let_def)
qed

lemma verify_state_same:
  "learning (clearRequestedContext (think t s \<lparr> executionReport := x \<rparr>)) = learning s"
  "retryCount (clearRequestedContext (think t s \<lparr> executionReport := x \<rparr>)) = retryCount s"
  by (simp_all add: think_def clearRequestedContext_def)

text \<open>
  C4, as the code has it.  With a report and a plan present, and the matcher returning, the
  verify step returns; it retries (\<open>partialRetry\<close>, \<open>retryCount + 1\<close>, back to \<open>generate\<close>)
  exactly when the completion rate is below 80 and \<open>retryCount < 1\<close>, and completes
  otherwise.  In both cases the \<open>missing_todos\<close> payload is stored exactly when a TODO stayed
  unmatched; a low rate implies that when the plan's list is not empty and its ids are
  distinct.  The rate counts the distinct ids of matched TODOs over the plan's length (the
  design's length, or 1, when the plan's list is empty).
\<close>

theorem verify_retry_decision:
  assumes rep: "execution_report (collectedAssets (collectedContext s)) = Some report"
    and pl: "plan s = Some p"
    and ev: "stateEvaluations lc s p report = Inr evs"
  shows "\<exists>s'. verifyExecution lc s = Inr s'
      \<and> learning s' =
          (if missingEvaluations evs = [] then learning s
           else Some (MissingTodosPayload (learning s) (map missingTodo (missingEvaluations evs))))
      \<and> (if completionRate evs (todoList p) (stateDesigns s) < 80 \<and> retryCount s < 1
          then partialRetry s'
               \<and> retryCount s' = retryCount s + 1
               \<and> currentStep s' = ''generate''
               \<and> (todoList p \<noteq> [] \<and> distinct (map todoId (todoList p)) \<longrightarrow>
                    missingEvaluations evs \<noteq> [])
          else currentStep s' = ''complete'' \<and> isComplete s')"
proof -
  let ?s2 = "clearRequestedContext (think VerifyStart s \<lparr> executionReport := Some report \<rparr>)"
  let ?s' = "concludeVerification p report evs ?s2"
  have r: "verifyExecution lc s = Inr ?s'"
    using rep pl ev by (rule verifyExecution_returns)
  have l: "learning ?s' =
          (if missingEvaluations evs = [] then learning s
           else Some (MissingTodosPayload (learning s) (map missingTodo (missingEvaluations evs))))"
    by (simp only: conclude_learning verify_state_same)
  have d: "stateDesigns ?s2 = stateDesigns s" by simp
  have c: "retryCount ?s2 = retryCount s" by (simp only: verify_state_same)
  have dec: "if completionRate evs (todoList p) (stateDesigns s) < 80 \<and> retryCount s < 1
          then partialRetry ?s'
               \<and> retryCount ?s' = retryCount s + 1
               \<and> currentStep ?s' = ''generate''
               \<and> (todoList p \<noteq> [] \<and> distinct (map todoId (todoList p)) \<longrightarrow>
                    missingEvaluations evs \<noteq> [])
          else currentStep ?s' = ''complete'' \<and> isComplete ?s'"
  proof (cases "completionRate evs (todoList p) (stateDesigns s) < 80 \<and> retryCount s < 1")
    case True
    then have low: "completionRate evs (todoList p) (stateDesigns s) < 80" by simp
    have m: "todoList p \<noteq> [] \<and> distinct (map todoId (todoList p)) \<longrightarrow>
                    missingEvaluations evs \<noteq> []"
      using low_rate_has_missing [OF _ _ ev low] by blast
    from True have t: "completionRate evs (todoList p) (stateDesigns ?s2) < 80" "retryCount ?s2 < 1"
      unfolding d c by simp_all
    have "partialRetry ?s' \<and> retryCount ?s' = retryCount s + 1 \<and> currentStep ?s' = ''generate''
          \<and> (todoList p \<noteq> [] \<and> distinct (map todoId (todoList p)) \<longrightarrow>
                    missingEvaluations evs \<noteq> [])"
      using conclude_retry [OF t] c m by simp
    with True show ?thesis by simp
  next
    case False
    then have f: "\<not> (completionRate evs (todoList p) (stateDesigns ?s2) < 80 \<and> retryCount ?s2 < 1)"
      unfolding d c .
    have "currentStep ?s' = ''complete'' \<and> isComplete ?s'"
      using conclude_complete [OF f] by simp
    then show ?thesis by (simp only: False if_False)
  qed
  from r l dec show ?thesis by blast
qed

lemma shortfall_evaluations:
  "stateEvaluations (\<lambda>s. s) (reportedState [plainTodo ''todo_1'' ''create'' None])
     \<lparr> strategy = ''create'', defaultScenarioId = None,
       todoList = [plainTodo ''todo_1'' ''create'' None] \<rparr> emptyReport
   = Inr [\<lparr> evTodo = plainTodo ''todo_1'' ''create'' None, matched = False,
            evReason = NoSatisfyingNode, matchedNodeId = None \<rparr>]"
  by code_simp

theorem verify_retry_decision_witness:
  "\<exists>s'. verifyExecution (\<lambda>s. s) (reportedState [plainTodo ''todo_1'' ''create'' None]) = Inr s'
   \<and> partialRetry s' \<and> retryCount s' = 1 \<and> currentStep s' = ''generate''
   \<and> learning s'
        = Some (MissingTodosPayload None
                  [\<lparr> missingId = ''todo_1'', missingTask = ''task todo_1'', missingType = ''create'',
                     missingReason = NoSatisfyingNode \<rparr>])"
proof -
  let ?s = "reportedState [plainTodo ''todo_1'' ''create'' None]"
  let ?p = "\<lparr> strategy = ''create'', defaultScenarioId = None,
             todoList = [plainTodo ''todo_1'' ''create'' None] \<rparr>"
  let ?evs = "[\<lparr> evTodo = plainTodo ''todo_1'' ''create'' None, matched = False,
            evReason = NoSatisfyingNode, matchedNodeId = None \<rparr>]"
  have rep: "execution_report (collectedAssets (collectedContext ?s)) = Some emptyReport"
    by (simp add: reportedState_def)
  have pl: "plan ?s = Some ?p"
    by (simp add: reportedState_def)
  have low: "completionRate ?evs (todoList ?p) (stateDesigns ?s) < 80"
    by code_simp
  have rc: "retryCount ?s = 0" "learning ?s = None"
    by (simp_all add: reportedState_def createInitialState_def)
  have ms: "map missingTodo (missingEvaluations ?evs)
      = [\<lparr> missingId = ''todo_1'', missingTask = ''task todo_1'', missingType = ''create'',
           missingReason = NoSatisfyingNode \<rparr>]"
    by (simp add: missingEvaluations_def missingTodo_def plainTodo_def)
  then have ne: "missingEvaluations ?evs \<noteq> []"
    by auto
  from verify_retry_decision [OF rep pl shortfall_evaluations] low rc ms ne
  obtain s' where "verifyExecution (\<lambda>s. s) ?s = Inr s'"
    and "partialRetry s'" "retryCount s' = 1" "currentStep s' = ''generate''"
    and "learning s'
        = Some (MissingTodosPayload None
                  [\<lparr> missingId = ''todo_1'', missingTask = ''task todo_1'', missingType = ''create'',
                     missingReason = NoSatisfyingNode \<rparr>])"
    by auto
  then show ?thesis by simp
qed

text \<open>
  The claim as stated fails: with an empty TODO list the rate is 0, the step retries, and
  no payload is stored.
\<close>

theorem verify_retry_without_payload:
  "map_sum (\<lambda>f. f) (\<lambda>s'. (currentStep s', partialRetry s', retryCount s', learning s'))
     (verifyExecution (\<lambda>s. s) (reportedState []))
   = Inr (''generate'', True, 1, None)"
  by code_simp

text \<open>
  The step does not always return: an expected variant property named like a member of
  \<open>Object.prototype\<close> finds a function under that key of the node's \<open>variantProps\<close>, and the
  \<open>TypeError\<close> of \<open>actualValue.toLowerCase()\<close> leaves \<open>executeStep\<close>.
\<close>

lemma verify_type_error:
  "map_sum (\<lambda>f. f) step
    (executeStep quietEnv
     ((reportedState [(plainTodo ''todo_1'' ''style'' (Some ''n1''))
                        \<lparr> expectedVariantProps := Some [(''constructor'', ''x'')] \<rparr>])
        \<lparr> collectedContext :=
            \<lparr> nodeDetails = Map.empty,
              collectedAssets =
                \<lparr> execution_report =
                    Some (emptyReport
                           \<lparr> updatedNodes :=
                               [\<lparr> updatedId = ''n1'', updatedName = ''Title'',
                                  changedProperties = [''fills''],
                                  variantProps = Some [(''size'', Text ''large'')] \<rparr>] \<rparr>),
                  otherAssets = Map.empty \<rparr>,
              answers = Map.empty \<rparr> \<rparr>))
   = Inl TypeFailure"
  by code_simp


section \<open>The validate step at the end of the retry budget\<close>

lemma startStep_control [simp]:
  "currentStep (startStep env s) = currentStep s"
  "retryCount (startStep env s) = retryCount s"
  "maxRetries (startStep env s) = maxRetries s"
  "generatedCode (startStep env s) = generatedCode s"
  "generation (startStep env s) = generation s"
  "plan (startStep env s) = plan s"
  "design (startStep env s) = design s"
  "runLog (startStep env s) = runLog s"
  "learning (startStep env s) = learning s"
  "thoughts (startStep env s) = thoughts s"
  by (simp_all add: startStep_def ensureStateDefaults_def applyContextUpdate_def Let_def
      split: option.splits)

lemma stepOf_startStep [simp]: "stepOf (startStep env s) = stepOf s"
  by (simp add: stepOf_def)

lemma todoValidationThrows_startStep [simp]:
  "todoValidationThrows env (startStep env s) = todoValidationThrows env s"
  by (simp add: todoValidationThrows_def)

lemma fallbackRuns_startStep [simp]:
  "fallbackRuns env (startStep env s) = fallbackRuns env s"
  by (simp add: fallbackRuns_def split: option.split)

lemma validationFindsDefects_startStep [simp]:
  "validationFindsDefects env (startStep env s) = validationFindsDefects env s"
  by (simp add: validationFindsDefects_def split: option.split)

lemma todoValidationThrows_same [simp]:
  "todoValidationThrows env (clearRequestedContext (think t s)) = todoValidationThrows env s"
  by (simp add: todoValidationThrows_def clearRequestedContext_def think_def)



lemma finishStep_next [simp]:
  "nextStep (finishStep stp s) = currentStep s"
  "currentStep (resultState (finishStep stp s)) = currentStep s"
  "step (finishStep stp s) = stp"
  "completed (finishStep stp s) = isComplete s"
  "resultRequestedContext (finishStep stp s) = cloneRequestedContext (requestedOrEmpty s)"
  by (simp_all add: finishStep_def appendRunLog_def requestedOrEmpty_def Let_def)




text \<open>
  C5 fails on the code.  On the fallback path \<open>validateCode\<close> increments \<open>retryCount\<close> before
  it compares it with \<open>maxRetries\<close>: entered with \<open>retryCount = maxRetries = 3\<close>, the step
  ends in \<open>error\<close> with \<open>retryCount = 4\<close>.
\<close>

theorem fallback_overruns_budget:
  "\<exists>r. executeStep throwingEnv exhaustedState = Inr r
        \<and> retryCount (resultState r) = 4 \<and> maxRetries (resultState r) = 3"
  by (simp add: executeStep_def startStep_def ensureStateDefaults_def stepOf_def dispatch_def
      validateCode_def validateFallback_def todoValidationThrows_def todoPattern_def
      plainTodo_def clearRequestedContext_def think_def finishStep_def appendRunLog_def
      throwingEnv_def quietEnv_def exhaustedState_def createInitialState_def truthyValue_def
      truthy_def fallbackErrors_def Let_def)

text \<open>
  The overrun is reached from the initial state by \<open>executeStep\<close> calls alone: three retries
  on the validator path use the budget up, the fourth script passes the validator, the
  thought callback throws on the verdict, and the fallback check rejects the top-level
  \<open>await\<close>.
\<close>

lemma overrun_reachable:
  "map_sum (\<lambda>f. f) (\<lambda>s. (currentStep s, retryCount s, maxRetries s, stepHistory s))
     (runSteps (createInitialState ''draw a button'' None None)
        (replicate 9 workingEnv @ [closingEnv, closingEnv]))
   = Inr (''error'', 4, 3,
          [''product-blueprint'', ''planning'', ''figma-design'', ''generate'', ''validate'',
           ''generate'', ''validate'', ''generate'', ''validate'', ''generate'', ''validate''])"
  by code_simp

section \<open>executeStep on a step name it does not know\<close>

text \<open>
  C9, as the code has it.  For a state whose \<open>currentStep\<close> is a non-empty string outside the
  enumerated step names, \<open>executeStep\<close> returns (it does not throw) with the unknown-step
  message in \<open>state.error\<close>, \<open>currentStep = "complete"\<close>, \<open>isComplete = true\<close> and
  \<open>completed = true\<close>.
\<close>

theorem unknown_step_completes:
  assumes "currentStep s \<noteq> []" and "currentStep s \<notin> set stepNames"
  shows "\<exists>r. executeStep env s = Inr r
             \<and> error (resultState r) = Some (err_unknown_step @ currentStep s)
             \<and> currentStep (resultState r) = ''complete''
             \<and> isComplete (resultState r)
             \<and> completed r"
  using assms
  by (simp add: executeStep_def stepOf_def dispatch_def stepNames_def finishStep_def
      appendRunLog_def Let_def)

theorem unknown_step_completes_witness:
  "\<exists>r. executeStep quietEnv (exhaustedState \<lparr> currentStep := ''error'' \<rparr>) = Inr r
             \<and> error (resultState r) = Some (err_unknown_step @ ''error'')
             \<and> currentStep (resultState r) = ''complete''
             \<and> isComplete (resultState r)
             \<and> completed r"
proof -
  have a: "currentStep (exhaustedState \<lparr> currentStep := ''error'' \<rparr>) \<noteq> []" by simp
  have b: "currentStep (exhaustedState \<lparr> currentStep := ''error'' \<rparr>) \<notin> set stepNames"
    by (simp add: stepNames_def)
  show ?thesis using unknown_step_completes [OF a b, of quietEnv] by simp
qed

text \<open>
  The claim as stated fails: the empty string is not a step name, and \<open>executeStep\<close> runs
  the product-blueprint step on it (\<open>state.currentStep || "product-blueprint"\<close>).
\<close>

theorem empty_step_runs_blueprint:
  "\<exists>r. executeStep quietEnv (exhaustedState \<lparr> currentStep := [] \<rparr>) = Inr r
        \<and> step r = ''product-blueprint'' \<and> nextStep r = ''planning'' \<and> \<not> completed r
        \<and> error (resultState r) = None"
  by (simp add: executeStep_def startStep_def ensureStateDefaults_def stepOf_def dispatch_def
      buildProductBlueprint_def think_def finishStep_def appendRunLog_def hasPendingRequests_def
      quietEnv_def exhaustedState_def createInitialState_def cloneRequestedContext_def Let_def)


section \<open>The run log\<close>

lemma runLog_think [simp]: "runLog (think t s) = runLog s"
  by (simp add: think_def)

lemma runLog_clear [simp]: "runLog (clearRequestedContext s) = runLog s"
  by (simp add: clearRequestedContext_def)

lemma runLog_buildProductBlueprint: "runLog (buildProductBlueprint s) = runLog s"
  by (simp add: buildProductBlueprint_def Let_def)

lemma runLog_planStrategy: "planStrategy env s = Inr s' \<Longrightarrow> runLog s' = runLog s"
  by (auto simp: planStrategy_def Let_def split: if_splits outcome.splits)

lemma runLog_designTodos: "runLog (designTodos env s) = runLog s"
  by (simp add: designTodos_def Let_def split: outcome.split prod.split)

lemma runLog_generateCode: "generateCode env s = Inr s' \<Longrightarrow> runLog s' = runLog s"
  by (auto simp: generateCode_def Let_def split: if_splits outcome.splits option.splits)

lemma runLog_validateFallback: "runLog (validateFallback code s) = runLog s"
  by (simp add: validateFallback_def Let_def)

lemma runLog_validateCode: "runLog (validateCode env s) = runLog s"
  by (simp add: validateCode_def recordValidationError_def runLog_validateFallback Let_def
      split: option.split)

lemma runLog_executeCode: "runLog (executeCode s) = runLog s"
  by (simp add: executeCode_def Let_def)

lemma runLog_handleError: "runLog (handleError s) = runLog s"
  by (simp add: handleError_def Let_def)

lemma runLog_concludeVerification:
  "\<exists>extra. runLog (concludeVerification p report evs s) = runLog s @ extra
       \<and> length extra = (if missingEvaluations evs \<noteq> [] then 1 else 0)
       \<and> (\<forall>e \<in> set extra. logStep e = ''verify:missing'')"
  by (simp add: concludeVerification_def Let_def)

lemma runLog_verifyExecution:
  assumes ret: "verifyExecution lc s = Inr s'"
  shows "\<exists>extra. runLog s' = runLog s @ extra
       \<and> length extra = (if verifyLogsMissing lc s then 1 else 0)
       \<and> (\<forall>e \<in> set extra. logStep e = ''verify:missing'')"
proof (cases "execution_report (collectedAssets (collectedContext s))")
  case None
  with ret show ?thesis
    by (auto simp add: verifyExecution_def verifyLogsMissing_def think_def Let_def)
next
  case (Some report)
  then have rep: "execution_report (collectedAssets (collectedContext (think VerifyStart s))) = Some report"
    by (simp add: think_def)
  let ?s2 = "clearRequestedContext (think VerifyStart s \<lparr> executionReport := Some report \<rparr>)"
  have log: "runLog ?s2 = runLog s" by simp
  show ?thesis
  proof (cases "plan s")
    case None
    then have "plan ?s2 = None"
      by (simp add: think_def clearRequestedContext_def)
    with rep Some None ret show ?thesis
      by (auto simp add: verifyExecution_def verifyLogsMissing_def Let_def)
  next
    case p: (Some p)
    then have pl: "plan ?s2 = Some p"
      by (simp add: think_def clearRequestedContext_def)
    show ?thesis
    proof (cases "stateEvaluations lc s p report")
      case (Inl f)
      with rep pl ret show ?thesis
        by (simp add: verifyExecution_def Let_def)
    next
      case (Inr evs)
      with rep pl ret have s': "s' = concludeVerification p report evs ?s2"
        by (simp add: verifyExecution_def Let_def)
      from Some p Inr have v: "verifyLogsMissing lc s = (missingEvaluations evs \<noteq> [])"
        by (simp add: verifyLogsMissing_def)
      show ?thesis
        unfolding s' v
        using runLog_concludeVerification [of p report evs ?s2]
        by (simp only: log)
    qed
  qed
qed

lemma dispatch_runLog:
  assumes "dispatch env stp s = Inr s'"
  shows "\<exists>extra. runLog s' = runLog s @ extra
       \<and> length extra = (if stp = ''verify'' \<and> verifyLogsMissing (toLowerCase env) s then 1 else 0)
       \<and> (\<forall>e \<in> set extra. logStep e = ''verify:missing'')"
proof (cases "stp = ''verify''")
  case True
  with assms have "verifyExecution (toLowerCase env) s = Inr s'"
    by (simp add: dispatch_def)
  with True show ?thesis
    using runLog_verifyExecution [of "toLowerCase env" s s'] by simp
next
  case False
  with assms have "runLog s' = runLog s"
    by (auto simp: dispatch_def runLog_buildProductBlueprint runLog_designTodos
        runLog_validateCode runLog_executeCode runLog_handleError
        dest: runLog_planStrategy runLog_generateCode split: if_splits)
  with False show ?thesis by simp
qed

lemma finishStep_runLog:
  "runLog (resultState (finishStep stp s)) =
     runLog s @ [\<lparr> logStep = stp, logSummary = stepSummary (s \<lparr> stepHistory := stepHistory s @ [stp], lastStepCompleted := Some stp \<rparr>) stp,
                  logRequestedContext = cloneRequestedContext (requestedOrEmpty s) \<rparr>]"
  by (simp add: finishStep_def appendRunLog_def requestedOrEmpty_def Let_def)

lemma exhausted_step_returns: "\<exists>r. executeStep throwingEnv exhaustedState = Inr r"
  by (simp add: executeStep_def stepOf_def dispatch_def exhaustedState_def Let_def)

text \<open>
  C7, as the code has it.  Every \<open>executeStep\<close> call that returns leaves the entries that
  were in \<open>runLog\<close> as they were and appends its own entry last; the verify step, when a
  TODO stayed unmatched, appends one \<open>verify:missing\<close> entry before it, and no other step
  appends anything else.
\<close>

theorem executeStep_runLog:
  assumes "executeStep env s = Inr r"
  shows "\<exists>extra entry. runLog (resultState r) = runLog s @ extra @ [entry]
           \<and> logStep entry = step r
           \<and> length extra = (if stepOf s = ''verify''
                                  \<and> verifyLogsMissing (toLowerCase env) (startStep env s)
                               then 1 else 0)
           \<and> (\<forall>e \<in> set extra. logStep e = ''verify:missing'')"
proof -
  from assms obtain s' where d: "dispatch env (stepOf s) (startStep env s) = Inr s'"
    and r: "r = finishStep (stepOf s) s'"
    by (auto simp: executeStep_def Let_def split: sum.splits)
  from dispatch_runLog [OF d] obtain extra where
    e: "runLog s' = runLog s @ extra"
       "length extra = (if stepOf s = ''verify'' \<and> verifyLogsMissing (toLowerCase env) (startStep env s)
                        then 1 else 0)"
       "\<forall>e \<in> set extra. logStep e = ''verify:missing''"
    by auto
  show ?thesis
    unfolding r finishStep_runLog
    using e by (intro exI [of _ extra]) simp
qed

theorem executeStep_runLog_witness:
  "\<exists>r extra entry. executeStep throwingEnv exhaustedState = Inr r
      \<and> runLog (resultState r) = runLog exhaustedState @ extra @ [entry]
      \<and> logStep entry = step r \<and> length extra = 0"
proof -
  obtain r where r: "executeStep throwingEnv exhaustedState = Inr r"
    using exhausted_step_returns by blast
  have st: "stepOf exhaustedState = ''validate''"
    by (simp add: stepOf_def exhaustedState_def)
  from executeStep_runLog [OF r] st r show ?thesis by auto
qed

text \<open>
  The claim as stated fails: a verify step with an unmatched TODO appends two entries.
\<close>

theorem verify_logs_twice:
  "map_sum (\<lambda>f. f) (\<lambda>r. map logStep (runLog (resultState r))) (executeStep quietEnv shortfallState)
     = Inr [''verify:missing'', ''verify'']
   \<and> runLog shortfallState = []"
  by code_simp



section \<open>Resuming from a serialized state\<close>

lemma strip_simps [simp]:
  "withoutParentChildMap (withoutParentChildMap d) = withoutParentChildMap d"
  "withoutTodoImplementation (withoutTodoImplementation g) = withoutTodoImplementation g"
  "(withoutParentChildMap d = None) = (d = None)"
  "(withoutTodoImplementation g = None) = (g = None)"
  "withoutParentChildMap None = None"
  "withoutTodoImplementation None = None"
  by (cases d; cases g; simp add: withoutParentChildMap_def withoutTodoImplementation_def)+

lemma strip_Some:
  "withoutParentChildMap (Some x) = Some (x \<lparr> parentChildMap := Map.empty \<rparr>)"
  "withoutTodoImplementation (Some y) = Some (y \<lparr> todoImplementation := Map.empty \<rparr>)"
  by (simp_all add: withoutParentChildMap_def withoutTodoImplementation_def)

lemma rt_fields [simp]:
  "currentStep (json_roundtrip s) = currentStep s"
  "requestedContext (json_roundtrip s) = requestedContext s"
  "isComplete (json_roundtrip s) = isComplete s"
  "plan (json_roundtrip s) = plan s"
  "design (json_roundtrip s) = withoutParentChildMap (design s)"
  "generation (json_roundtrip s) = withoutTodoImplementation (generation s)"
  "generatedCode (json_roundtrip s) = generatedCode s"
  by (simp_all add: json_roundtrip_def)

lemma rt_stateDesigns [simp]: "stateDesigns (json_roundtrip s) = stateDesigns s"
  by (cases "design s") (simp_all add: stateDesigns_def strip_Some)

lemma rt_idem [simp]: "json_roundtrip (json_roundtrip s) = json_roundtrip s"
  by (simp add: json_roundtrip_def)

lemma rt_think [simp]: "json_roundtrip (think t s) = think t (json_roundtrip s)"
  by (simp add: json_roundtrip_def think_def)

lemma rt_clear [simp]: "json_roundtrip (clearRequestedContext s) = clearRequestedContext (json_roundtrip s)"
  by (simp add: json_roundtrip_def clearRequestedContext_def)

lemma rt_startStep: "startStep env (json_roundtrip s) = json_roundtrip (startStep env s)"
  by (simp add: startStep_def ensureStateDefaults_def applyContextUpdate_def json_roundtrip_def Let_def
      split: option.splits)

lemma rt_stepOf [simp]: "stepOf (json_roundtrip s) = stepOf s"
  by (simp add: stepOf_def)

lemma rt_blueprint: "buildProductBlueprint (json_roundtrip s) = json_roundtrip (buildProductBlueprint s)"
  by (simp add: buildProductBlueprint_def Let_def json_roundtrip_def think_def)

lemma rt_plan: "planStrategy env (json_roundtrip s) = map_sum (\<lambda>f. f) json_roundtrip (planStrategy env s)"
  by (simp add: planStrategy_def Let_def json_roundtrip_def think_def clearRequestedContext_def
      split: outcome.splits)

lemma rt_design:
  "json_roundtrip (designTodos env (json_roundtrip s)) = json_roundtrip (designTodos env s)"
  by (simp add: designTodos_def Let_def json_roundtrip_def think_def clearRequestedContext_def
      split: outcome.splits prod.splits)

lemma rt_generate:
  "map_sum (\<lambda>f. f) json_roundtrip (generateCode env (json_roundtrip s))
     = map_sum (\<lambda>f. f) json_roundtrip (generateCode env s)"
  by (cases "plan s"; cases "design s")
     (simp_all add: generateCode_def Let_def json_roundtrip_def think_def clearRequestedContext_def
      strip_Some split: outcome.splits option.splits)

lemma rt_todoValidationThrows [simp]:
  "todoValidationThrows env (json_roundtrip s) = todoValidationThrows env s"
  by (simp add: todoValidationThrows_def)

lemma rt_validateFallback:
  "validateFallback code (json_roundtrip s) = json_roundtrip (validateFallback code s)"
  by (simp add: validateFallback_def Let_def json_roundtrip_def think_def)

lemma rt_validate: "validateCode env (json_roundtrip s) = json_roundtrip (validateCode env s)"
proof -
  let ?s1 = "clearRequestedContext (think ValidateStart s)"
  have s1: "clearRequestedContext (think ValidateStart (json_roundtrip s)) = json_roundtrip ?s1"
    by simp
  have upd: "\<And>x v. json_roundtrip x \<lparr> validationResult := v \<rparr>
                     = json_roundtrip (x \<lparr> validationResult := v \<rparr>)"
    "\<And>x e c. json_roundtrip x \<lparr> error := e, currentStep := c \<rparr>
                     = json_roundtrip (x \<lparr> error := e, currentStep := c \<rparr>)"
    "\<And>x c. json_roundtrip x \<lparr> currentStep := c \<rparr> = json_roundtrip (x \<lparr> currentStep := c \<rparr>)"
    "\<And>x r l c. json_roundtrip x \<lparr> retryCount := r, learning := l, currentStep := c \<rparr>
                     = json_roundtrip (x \<lparr> retryCount := r, learning := l, currentStep := c \<rparr>)"
    "\<And>x ts c. recordValidationError (json_roundtrip x) ts c
                     = json_roundtrip (recordValidationError x ts c)"
    "\<And>x. retryCount (json_roundtrip x) = retryCount x"
    "\<And>x. maxRetries (json_roundtrip x) = maxRetries x"
    by (simp_all add: json_roundtrip_def recordValidationError_def)
  have th: "\<And>t x. think t (json_roundtrip x) = json_roundtrip (think t x)"
    by simp
  show ?thesis
  proof (cases "generation s")
    case None
    then have g: "generation (json_roundtrip ?s1) = None" "generation ?s1 = None"
      by (simp_all add: clearRequestedContext_def think_def del: rt_think rt_clear)
    have c: "generatedCode (json_roundtrip ?s1) = generatedCode ?s1"
      by (simp del: rt_think rt_clear)
    show ?thesis
      unfolding validateCode_def Let_def s1 c g
      by (simp add: upd del: rt_think rt_clear split: option.split)
  next
    case (Some gen)
    then obtain gen' where g: "generation (json_roundtrip ?s1) = Some gen'" "generation ?s1 = Some gen"
      by (simp add: strip_Some clearRequestedContext_def think_def del: rt_think rt_clear)
    have c: "generatedCode (json_roundtrip ?s1) = generatedCode ?s1"
      by (simp del: rt_think rt_clear)
    show ?thesis
      unfolding validateCode_def Let_def s1 c g
      by (simp add: upd th rt_validateFallback del: rt_think rt_clear split: option.split)
  qed
qed

lemma rt_execute: "executeCode (json_roundtrip s) = json_roundtrip (executeCode s)"
  by (simp add: executeCode_def Let_def json_roundtrip_def think_def)

lemma rt_handleError: "handleError (json_roundtrip s) = json_roundtrip (handleError s)"
  by (simp add: handleError_def Let_def json_roundtrip_def think_def clearRequestedContext_def)

lemma rt_stateEvaluations [simp]:
  "stateEvaluations lc (json_roundtrip s) = stateEvaluations lc s"
  by (simp add: stateEvaluations_def fun_eq_iff cong: sum.case_cong)

lemma rt_conclude:
  "concludeVerification p report evs (json_roundtrip s)
     = json_roundtrip (concludeVerification p report evs s)"
proof -
  have sd: "stateDesigns (s \<lparr> design := withoutParentChildMap (design s),
                              generation := withoutTodoImplementation (generation s) \<rparr>)
             = stateDesigns s"
    using rt_stateDesigns [of s] by (simp add: json_roundtrip_def)
  have sd': "\<And>x. stateDesigns (s \<lparr> thoughts := x \<rparr>) = stateDesigns s"
    "\<And>x. stateDesigns (s \<lparr> design := withoutParentChildMap (design s),
                                generation := withoutTodoImplementation (generation s),
                                thoughts := x \<rparr>) = stateDesigns s"
    using sd by (simp_all add: stateDesigns_def)
  show ?thesis
    by (auto simp add: concludeVerification_def json_roundtrip_def think_def requestedOrEmpty_def
        Let_def sd sd')
qed

lemma rt_verify:
  "verifyExecution lc (json_roundtrip s) = map_sum (\<lambda>f. f) json_roundtrip (verifyExecution lc s)"
proof (cases "execution_report (collectedAssets (collectedContext s))")
  case None
  then show ?thesis
    by (simp add: verifyExecution_def json_roundtrip_def think_def Let_def)
next
  case (Some report)
  let ?s2 = "clearRequestedContext (think VerifyStart s \<lparr> executionReport := Some report \<rparr>)"
  have rep: "execution_report (collectedAssets (collectedContext (think VerifyStart s))) = Some report"
    "execution_report (collectedAssets (collectedContext (think VerifyStart (json_roundtrip s))))
       = Some report"
    using Some by (simp_all add: think_def json_roundtrip_def)
  have s2: "clearRequestedContext (think VerifyStart (json_roundtrip s) \<lparr> executionReport := Some report \<rparr>)
              = json_roundtrip ?s2"
    by (simp add: json_roundtrip_def think_def clearRequestedContext_def)
  have l: "verifyExecution lc (json_roundtrip s) =
             (case plan (json_roundtrip ?s2) of
                None \<Rightarrow> Inr (json_roundtrip ?s2 \<lparr> currentStep := ''complete'', isComplete := True \<rparr>)
              | Some p \<Rightarrow>
                  (case stateEvaluations lc (json_roundtrip ?s2) p report of
                     Inl f \<Rightarrow> Inl f
                   | Inr evs \<Rightarrow> Inr (concludeVerification p report evs (json_roundtrip ?s2))))"
    unfolding verifyExecution_def Let_def rep
    by (simp add: s2 del: rt_think rt_clear cong: option.case_cong sum.case_cong)
  have r: "verifyExecution lc s =
             (case plan ?s2 of
                None \<Rightarrow> Inr (?s2 \<lparr> currentStep := ''complete'', isComplete := True \<rparr>)
              | Some p \<Rightarrow>
                  (case stateEvaluations lc ?s2 p report of
                     Inl f \<Rightarrow> Inl f
                   | Inr evs \<Rightarrow> Inr (concludeVerification p report evs ?s2)))"
    unfolding verifyExecution_def Let_def rep by simp
  have fin: "\<And>x. json_roundtrip x \<lparr> currentStep := ''complete'', isComplete := True \<rparr>
      = json_roundtrip (x \<lparr> currentStep := ''complete'', isComplete := True \<rparr>)"
    by (simp add: json_roundtrip_def)
  show ?thesis
    unfolding l r
    by (simp add: rt_conclude fin del: rt_think rt_clear split: option.split sum.split)
qed

lemma rt_requestedOrEmpty [simp]: "requestedOrEmpty (json_roundtrip s) = requestedOrEmpty s"
  by (simp add: requestedOrEmpty_def)

lemma rt_complete:
  "json_roundtrip (json_roundtrip s \<lparr> isComplete := True \<rparr>) = json_roundtrip (s \<lparr> isComplete := True \<rparr>)"
  by (simp add: json_roundtrip_def)

lemma rt_unknown:
  "json_roundtrip (json_roundtrip s \<lparr> error := e, isComplete := True, currentStep := c \<rparr>)
     = json_roundtrip (s \<lparr> error := e, isComplete := True, currentStep := c \<rparr>)"
  by (simp add: json_roundtrip_def)

lemma rt_dispatch:
  "map_sum (\<lambda>f. f) json_roundtrip (dispatch env stp (json_roundtrip s))
     = map_sum (\<lambda>f. f) json_roundtrip (dispatch env stp s)"
  by (simp add: dispatch_def rt_blueprint rt_plan rt_design rt_generate rt_validate rt_execute
      rt_verify rt_handleError rt_complete rt_unknown sum.map_comp comp_def)

lemma outlook_finish:
  "outlook (Inr (finishStep stp s)) = Inr (currentStep s, cloneRequestedContext (requestedOrEmpty s))"
  by (simp add: outlook_def finishStep_def appendRunLog_def requestedOrEmpty_def Let_def)

lemma outlook_rt:
  "outlook (Inr (finishStep stp (json_roundtrip s))) = outlook (Inr (finishStep stp s))"
  by (simp add: outlook_finish)

text \<open>C8. The state returned by one call is sent to the client as JSON and comes back with the
  next request. The transfer loses exactly the two \<open>Map\<close> fields (\<open>design.parentChildMap\<close> and
  \<open>generation.todoImplementation\<close> arrive as plain empty objects); \<open>json_roundtrip\<close> is that loss.
  With the same answers of the collaborators on both sides, a step run on the transferred state
  fails exactly when the step run on the original state fails, and otherwise announces the same
  next step and the same requested context: resuming from the returned state continues the
  workflow where it stopped.\<close>

theorem resume_after_roundtrip:
  "outlook (executeStep env (json_roundtrip s)) = outlook (executeStep env s)"
proof -
  let ?st = "stepOf (startStep env s)"
  let ?a = "dispatch env ?st (json_roundtrip (startStep env s))"
  let ?b = "dispatch env ?st (startStep env s)"
  have eq: "map_sum (\<lambda>f. f) json_roundtrip ?a = map_sum (\<lambda>f. f) json_roundtrip ?b"
    by (rule rt_dispatch)
  have ex1: "executeStep env (json_roundtrip s)
      = (case ?a of Inl f \<Rightarrow> Inl f | Inr s' \<Rightarrow> Inr (finishStep ?st s'))"
    by (simp add: executeStep_def rt_startStep Let_def cong: sum.case_cong)
  have ex2: "executeStep env s
      = (case ?b of Inl f \<Rightarrow> Inl f | Inr s' \<Rightarrow> Inr (finishStep ?st s'))"
    by (simp add: executeStep_def Let_def cong: sum.case_cong)
  show ?thesis
  proof (cases ?a)
    case (Inl f)
    with eq have "?b = Inl f" by (cases ?b) simp_all
    with Inl ex1 ex2 show ?thesis by simp
  next
    case (Inr a)
    with eq obtain b where b: "?b = Inr b" and ab: "json_roundtrip a = json_roundtrip b"
      by (cases ?b) simp_all
    have "outlook (Inr (finishStep ?st a)) = outlook (Inr (finishStep ?st (json_roundtrip a)))"
      by (simp only: outlook_rt)
    also have "\<dots> = outlook (Inr (finishStep ?st (json_roundtrip b)))"
      by (simp only: ab)
    also have "\<dots> = outlook (Inr (finishStep ?st b))"
      by (simp only: outlook_rt)
    finally show ?thesis using Inr b ex1 ex2 by simp
  qed
qed

end
